theory Spec2Isabelle
  imports Main
begin

section \<open>The registry client of kbld (pkg/kbld/registry/registry.go)\<close>

text \<open>
  The file is a thin facade over go-containerregistry. Everything it calls outside
  itself (the file system, crypto/x509, the name and remote packages, time.Sleep) is
  an effect of the model: the pure library functions are parameters, the calls that
  reach the network or the clock are recorded in a trace that the state carries.
\<close>

subsection \<open>Errors and formatting\<close>

text \<open>
  A Go \<open>error\<close> value is its message; the nil error is \<open>None\<close> of
  \<open>error option\<close>. A Go result pair \<open>(v, err)\<close> is the sum
  \<open>error + 'v\<close>, \<open>Inl\<close> the error.
\<close>

datatype error = Error (Error_msg: string)

text \<open>The verb \<open>%s\<close> of fmt applied to an error: its message, and Go's marker for nil.\<close>

fun fmt_s :: "error option \<Rightarrow> string" where
  "fmt_s (Some err) = Error_msg err"
| "fmt_s None = ''%!s(<nil>)''"

text \<open>\<open>fmt.Errorf(prefix + "%s", err)\<close>: a new error whose message ends with the text of \<open>err\<close>.\<close>

definition fmt_Errorf :: "string \<Rightarrow> error option \<Rightarrow> error" where
  "fmt_Errorf prefix err = Error (prefix @ fmt_s err)"

definition apostrophe :: char where
  "apostrophe = CHR 0x27"

subsection \<open>Configuration and transport\<close>

record Opts =
  CACertPaths :: "string list"
  VerifyCerts :: bool
  Insecure :: bool
  EnvAuthPrefix :: string

text \<open>The value of \<open>Opts{}\<close>: every field left out of a Go struct literal has its zero value.\<close>

definition Opts_zero :: Opts where
  "Opts_zero = \<lparr>CACertPaths = [], VerifyCerts = False, Insecure = False, EnvAuthPrefix = []\<rparr>"

text \<open>A certificate pool is the list of the certificates in it; \<open>x509.NewCertPool()\<close> is empty.\<close>

type_synonym cert_pool = "string list"

definition x509_NewCertPool :: cert_pool where
  "x509_NewCertPool = []"

text \<open>What construction asks of the host: the system pool, file contents, the PEM parser.\<close>

record host =
  x509_SystemCertPool :: "error + cert_pool"
  os_ReadFile :: "string \<Rightarrow> error + string"
  x509_AppendCertsFromPEM :: "cert_pool \<Rightarrow> string \<Rightarrow> cert_pool \<times> bool"

text \<open>A \<open>time.Duration\<close> counts nanoseconds.\<close>

definition Second :: int where
  "Second = 1000000000"

datatype proxy = ProxyFromEnvironment

record Dialer =
  Timeout :: int
  KeepAlive :: int
  DualStack :: bool

record tls_Config =
  RootCAs :: cert_pool
  InsecureSkipVerify :: bool

record Transport =
  Proxy :: proxy
  DialContext :: Dialer
  MaxIdleConns :: int
  IdleConnTimeout :: int
  TLSHandshakeTimeout :: int
  ResponseHeaderTimeout :: int
  ExpectContinueTimeout :: int
  TLSClientConfig :: tls_Config

text \<open>
  The loop of \<open>newHTTPTransport\<close> over the CA paths (lines 160--166): each file is
  read and appended to the pool, and the first failure returns.
\<close>

fun append_ca_certs :: "host \<Rightarrow> string list \<Rightarrow> cert_pool \<Rightarrow> error + cert_pool" where
  "append_ca_certs h [] pool = Inr pool"
| "append_ca_certs h (path # paths) pool =
     (case os_ReadFile h path of
        Inl err \<Rightarrow>
          Inl (Error (''Reading CA certificates from '' @ [apostrophe] @ path @ [apostrophe]
                      @ '': '' @ fmt_s (Some err)))
      | Inr certs \<Rightarrow>
          (case x509_AppendCertsFromPEM h pool certs of
             (pool', ok) \<Rightarrow>
               if \<not> ok then
                 Inl (Error (''Adding CA certificates from '' @ [apostrophe] @ path @ [apostrophe]
                             @ '': failed''))
               else append_ca_certs h paths pool'))"

text \<open>Lines 154--157: the system pool, or an empty pool when it cannot be loaded.\<close>

definition system_pool :: "host \<Rightarrow> cert_pool" where
  "system_pool h = (case x509_SystemCertPool h of Inl err \<Rightarrow> x509_NewCertPool | Inr pool \<Rightarrow> pool)"

definition newHTTPTransport :: "host \<Rightarrow> Opts \<Rightarrow> error + Transport" where
  "newHTTPTransport h opts =
     (let pool = system_pool h;
          loaded = (if length (CACertPaths opts) > 0
                    then append_ca_certs h (CACertPaths opts) pool
                    else Inr pool)
      in case loaded of
           Inl err \<Rightarrow> Inl err
         | Inr pool' \<Rightarrow>
             Inr \<lparr>Proxy = ProxyFromEnvironment,
                  DialContext = \<lparr>Timeout = 30 * Second, KeepAlive = 30 * Second, DualStack = True\<rparr>,
                  MaxIdleConns = 100,
                  IdleConnTimeout = 90 * Second,
                  TLSHandshakeTimeout = 10 * Second,
                  ResponseHeaderTimeout = 10 * Second,
                  ExpectContinueTimeout = 1 * Second,
                  TLSClientConfig =
                    \<lparr>RootCAs = pool', InsecureSkipVerify = (VerifyCerts opts = False)\<rparr>\<rparr>)"

definition skips_verification :: "Transport \<Rightarrow> bool" where
  "skips_verification t = InsecureSkipVerify (TLSClientConfig t)"

subsection \<open>The client\<close>

text \<open>
  \<open>NewEnvKeychain\<close> lives in another file of the package; the client only passes the
  keychain on, so a keychain is recorded here by how it was built.
\<close>

datatype keychain =
    EnvKeychain string
  | DefaultKeychain
  | MultiKeychain "keychain list"

definition NewEnvKeychain :: "string \<Rightarrow> keychain" where
  "NewEnvKeychain prefix = EnvKeychain prefix"

definition regauthn_NewMultiKeychain :: "keychain list \<Rightarrow> keychain" where
  "regauthn_NewMultiKeychain ks = MultiKeychain ks"

datatype regremote_Option = WithTransport Transport | WithAuthFromKeychain keychain

datatype regname_Option = regname_Insecure

record Registry =
  opts :: "regremote_Option list"
  refOpts :: "regname_Option list"

text \<open>
  Lines 33--52. On failure the Go function returns the zero \<open>Registry\<close> beside the
  error; the sum keeps the error alone.
\<close>

definition NewRegistry :: "host \<Rightarrow> Opts \<Rightarrow> error + Registry" where
  "NewRegistry h opts' =
     (let keychain = regauthn_NewMultiKeychain [NewEnvKeychain (EnvAuthPrefix opts'), DefaultKeychain]
      in case newHTTPTransport h opts' of
           Inl err \<Rightarrow> Inl err
         | Inr transport \<Rightarrow>
             (let refOpts' = (if Insecure opts' then [] @ [regname_Insecure] else [])
              in Inr \<lparr>opts = [WithTransport transport, WithAuthFromKeychain keychain],
                      refOpts = refOpts'\<rparr>))"

subsection \<open>References and registry values\<close>

text \<open>
  The values of go-containerregistry that the client moves around without looking
  inside. A \<open>name.Reference\<close> is the interface that \<open>name.Tag\<close> and
  \<open>name.Digest\<close> implement; the others are known by a label.
\<close>

datatype tag = Tag (tag_String: string)

datatype digest = Digest (digest_String: string)

datatype reference = TagRef tag | DigestRef digest

fun reference_String :: "reference \<Rightarrow> string" where
  "reference_String (TagRef t) = tag_String t"
| "reference_String (DigestRef d) = digest_String d"

datatype repository = Repository (repository_Name: string)

datatype v1_Descriptor = V1Descriptor string

datatype v1_Image = V1Image string

datatype v1_ImageIndex = V1ImageIndex string

record remote_Descriptor =
  Descriptor :: v1_Descriptor
  Manifest :: string

subsection \<open>The world: registry state and the trace of effects\<close>

text \<open>
  Every call that leaves the process is an event: a call of the remote package, a
  \<open>time.Sleep\<close>, and each call of the closure handed to \<open>retry\<close>. The
  trace is ghost state: the code never reads it.
\<close>

datatype netcall =
    CallGet reference
  | CallImage reference
  | CallWrite reference v1_Image
  | CallIndex reference
  | CallWriteIndex reference v1_ImageIndex
  | CallTag tag remote_Descriptor
  | CallList repository

datatype event = Invoke | Sleep int | Net netcall

record 'n world =
  net :: 'n
  trace :: "event list"

text \<open>
  The library. Parsing is pure. A remote call may answer from everything that has
  happened so far (the registry state, the calls made, the time slept) and changes the
  registry state only.
\<close>

record 'n library =
  regname_ParseReference :: "string \<Rightarrow> regname_Option list \<Rightarrow> error + reference"
  regname_NewTag :: "string \<Rightarrow> regname_Option list \<Rightarrow> error + tag"
  regname_NewDigest :: "string \<Rightarrow> regname_Option list \<Rightarrow> error + digest"
  regname_NewRepository :: "string \<Rightarrow> regname_Option list \<Rightarrow> error + repository"
  lib_Get :: "reference \<Rightarrow> regremote_Option list \<Rightarrow> 'n world \<Rightarrow> (error + remote_Descriptor) \<times> 'n"
  lib_Image :: "reference \<Rightarrow> regremote_Option list \<Rightarrow> 'n world \<Rightarrow> (error + v1_Image) \<times> 'n"
  lib_Write :: "reference \<Rightarrow> v1_Image \<Rightarrow> regremote_Option list \<Rightarrow> 'n world \<Rightarrow> error option \<times> 'n"
  lib_Index :: "reference \<Rightarrow> regremote_Option list \<Rightarrow> 'n world \<Rightarrow> (error + v1_ImageIndex) \<times> 'n"
  lib_WriteIndex :: "reference \<Rightarrow> v1_ImageIndex \<Rightarrow> regremote_Option list \<Rightarrow> 'n world \<Rightarrow> error option \<times> 'n"
  lib_Tag :: "tag \<Rightarrow> remote_Descriptor \<Rightarrow> regremote_Option list \<Rightarrow> 'n world \<Rightarrow> error option \<times> 'n"
  lib_List :: "repository \<Rightarrow> regremote_Option list \<Rightarrow> 'n world \<Rightarrow> (error + string list) \<times> 'n"

text \<open>One remote call: its answer, the new registry state, and the call appended to the trace.\<close>

definition perform :: "netcall \<Rightarrow> ('n world \<Rightarrow> 'r \<times> 'n) \<Rightarrow> 'n world \<Rightarrow> 'r \<times> 'n world" where
  "perform c f w = (case f w of (r, n') \<Rightarrow> (r, \<lparr>net = n', trace = trace w @ [Net c]\<rparr>))"

definition regremote_Get ::
  "'n library \<Rightarrow> reference \<Rightarrow> regremote_Option list \<Rightarrow> 'n world \<Rightarrow> (error + remote_Descriptor) \<times> 'n world" where
  "regremote_Get lib ref os = perform (CallGet ref) (lib_Get lib ref os)"

definition regremote_Image ::
  "'n library \<Rightarrow> reference \<Rightarrow> regremote_Option list \<Rightarrow> 'n world \<Rightarrow> (error + v1_Image) \<times> 'n world" where
  "regremote_Image lib ref os = perform (CallImage ref) (lib_Image lib ref os)"

definition regremote_Write ::
  "'n library \<Rightarrow> reference \<Rightarrow> v1_Image \<Rightarrow> regremote_Option list \<Rightarrow> 'n world \<Rightarrow> error option \<times> 'n world" where
  "regremote_Write lib ref img os = perform (CallWrite ref img) (lib_Write lib ref img os)"

definition regremote_Index ::
  "'n library \<Rightarrow> reference \<Rightarrow> regremote_Option list \<Rightarrow> 'n world \<Rightarrow> (error + v1_ImageIndex) \<times> 'n world" where
  "regremote_Index lib ref os = perform (CallIndex ref) (lib_Index lib ref os)"

definition regremote_WriteIndex ::
  "'n library \<Rightarrow> reference \<Rightarrow> v1_ImageIndex \<Rightarrow> regremote_Option list \<Rightarrow> 'n world \<Rightarrow> error option \<times> 'n world" where
  "regremote_WriteIndex lib ref idx os = perform (CallWriteIndex ref idx) (lib_WriteIndex lib ref idx os)"

definition regremote_Tag ::
  "'n library \<Rightarrow> tag \<Rightarrow> remote_Descriptor \<Rightarrow> regremote_Option list \<Rightarrow> 'n world \<Rightarrow> error option \<times> 'n world" where
  "regremote_Tag lib t desc os = perform (CallTag t desc) (lib_Tag lib t desc os)"

definition regremote_List ::
  "'n library \<Rightarrow> repository \<Rightarrow> regremote_Option list \<Rightarrow> 'n world \<Rightarrow> (error + string list) \<times> 'n world" where
  "regremote_List lib repo os = perform (CallList repo) (lib_List lib repo os)"

definition time_Sleep :: "int \<Rightarrow> 'n world \<Rightarrow> 'n world" where
  "time_Sleep d w = w\<lparr>trace := trace w @ [Sleep d]\<rparr>"

subsection \<open>The retry loop\<close>

text \<open>A closure \<open>func() error\<close>: it runs in the world and returns its error.\<close>

type_synonym 'n action = "'n world \<Rightarrow> error option \<times> 'n world"

text \<open>The call \<open>doFunc()\<close>, recorded.\<close>

definition invoke :: "'n action \<Rightarrow> 'n action" where
  "invoke doFunc w = doFunc (w\<lparr>trace := trace w @ [Invoke]\<rparr>)"

text \<open>
  The \<open>for\<close> loop of \<open>retry\<close> (lines 194--200) from counter \<open>i\<close> with the
  current \<open>lastErr\<close>, and the return after it (line 201).
\<close>

function retry_loop :: "nat \<Rightarrow> error option \<Rightarrow> 'n action \<Rightarrow> 'n action" where
  "retry_loop i lastErr doFunc w =
     (if i < 5 then
        (case invoke doFunc w of
           (None, w') \<Rightarrow> (None, w')
         | (Some err, w') \<Rightarrow> retry_loop (i + 1) (Some err) doFunc (time_Sleep (1 * Second) w'))
      else (Some (fmt_Errorf ''Retried 5 times: '' lastErr), w))"
  by pat_completeness auto
termination
  by (relation "measure (\<lambda>(i, lastErr, doFunc, w). 5 - i)") auto

declare retry_loop.simps [simp del]

definition retry :: "'n action \<Rightarrow> 'n action" where
  "retry doFunc w = retry_loop 0 None doFunc w"

subsection \<open>The operations of the client\<close>

definition Generic ::
  "'n library \<Rightarrow> Registry \<Rightarrow> reference \<Rightarrow> 'n world \<Rightarrow> (error + v1_Descriptor) \<times> 'n world" where
  "Generic lib i ref w =
     (case regname_ParseReference lib (reference_String ref) (refOpts i) of
        Inl err \<Rightarrow> (Inl err, w)
      | Inr ref' \<Rightarrow>
          (case regremote_Get lib ref' (opts i) w of
             (Inl err, w') \<Rightarrow> (Inl err, w')
           | (Inr desc, w') \<Rightarrow> (Inr (Descriptor desc), w')))"

definition Image ::
  "'n library \<Rightarrow> Registry \<Rightarrow> reference \<Rightarrow> 'n world \<Rightarrow> (error + v1_Image) \<times> 'n world" where
  "Image lib i ref w =
     (case regname_ParseReference lib (reference_String ref) (refOpts i) of
        Inl err \<Rightarrow> (Inl err, w)
      | Inr ref' \<Rightarrow> regremote_Image lib ref' (opts i) w)"

definition WriteImage ::
  "'n library \<Rightarrow> Registry \<Rightarrow> reference \<Rightarrow> v1_Image \<Rightarrow> 'n action" where
  "WriteImage lib i ref img w =
     (case regname_ParseReference lib (reference_String ref) (refOpts i) of
        Inl err \<Rightarrow> (Some err, w)
      | Inr ref' \<Rightarrow>
          (case retry (\<lambda>w. regremote_Write lib ref' img (opts i) w) w of
             (Some err, w') \<Rightarrow> (Some (fmt_Errorf ''Writing image: '' (Some err)), w')
           | (None, w') \<Rightarrow> (None, w')))"

definition Index ::
  "'n library \<Rightarrow> Registry \<Rightarrow> reference \<Rightarrow> 'n world \<Rightarrow> (error + v1_ImageIndex) \<times> 'n world" where
  "Index lib i ref w =
     (case regname_ParseReference lib (reference_String ref) (refOpts i) of
        Inl err \<Rightarrow> (Inl err, w)
      | Inr ref' \<Rightarrow> regremote_Index lib ref' (opts i) w)"

definition WriteIndex ::
  "'n library \<Rightarrow> Registry \<Rightarrow> reference \<Rightarrow> v1_ImageIndex \<Rightarrow> 'n action" where
  "WriteIndex lib i ref idx w =
     (case regname_ParseReference lib (reference_String ref) (refOpts i) of
        Inl err \<Rightarrow> (Some err, w)
      | Inr ref' \<Rightarrow>
          (case retry (\<lambda>w. regremote_WriteIndex lib ref' idx (opts i) w) w of
             (Some err, w') \<Rightarrow> (Some (fmt_Errorf ''Writing image index: '' (Some err)), w')
           | (None, w') \<Rightarrow> (None, w')))"

text \<open>The closure of \<open>WriteTag\<close> (lines 129--136): read the descriptor, then tag it.\<close>

definition WriteTag_attempt ::
  "'n library \<Rightarrow> Registry \<Rightarrow> tag \<Rightarrow> digest \<Rightarrow> 'n action" where
  "WriteTag_attempt lib i dstRef srcRef w =
     (case regremote_Get lib (DigestRef srcRef) (opts i) w of
        (Inl err, w') \<Rightarrow> (Some err, w')
      | (Inr desc, w') \<Rightarrow> regremote_Tag lib dstRef desc (opts i) w')"

definition WriteTag ::
  "'n library \<Rightarrow> Registry \<Rightarrow> tag \<Rightarrow> digest \<Rightarrow> 'n action" where
  "WriteTag lib i dstRef srcRef w =
     (case regname_NewTag lib (tag_String dstRef) (refOpts i) of
        Inl err \<Rightarrow> (Some err, w)
      | Inr dstRef' \<Rightarrow>
          (case regname_NewDigest lib (digest_String srcRef) (refOpts i) of
             Inl err \<Rightarrow> (Some err, w)
           | Inr srcRef' \<Rightarrow>
               (case retry (WriteTag_attempt lib i dstRef' srcRef') w of
                  (Some err, w') \<Rightarrow> (Some (fmt_Errorf ''Writing image tag: '' (Some err)), w')
                | (None, w') \<Rightarrow> (None, w'))))"

definition ListTags ::
  "'n library \<Rightarrow> Registry \<Rightarrow> repository \<Rightarrow> 'n world \<Rightarrow> (error + string list) \<times> 'n world" where
  "ListTags lib i repo w =
     (case regname_NewRepository lib (repository_Name repo) (refOpts i) of
        Inl err \<Rightarrow> (Inl err, w)
      | Inr repo' \<Rightarrow> regremote_List lib repo' (opts i) w)"

subsection \<open>Reading the trace\<close>

fun is_Net :: "event \<Rightarrow> bool" where
  "is_Net (Net c) = True"
| "is_Net e = False"

fun is_Sleep :: "event \<Rightarrow> bool" where
  "is_Sleep (Sleep d) = True"
| "is_Sleep e = False"

text \<open>The events of the retry loop itself: invocations and sleeps, in order.\<close>

definition loop_events :: "event list \<Rightarrow> event list" where
  "loop_events es = filter (\<lambda>e. \<not> is_Net e) es"

definition network_calls :: "event list \<Rightarrow> event list" where
  "network_calls es = filter is_Net es"

definition invocations :: "event list \<Rightarrow> nat" where
  "invocations es = length (filter (\<lambda>e. e = Invoke) es)"

definition sleeps :: "event list \<Rightarrow> nat" where
  "sleeps es = length (filter is_Sleep es)"

fun duration :: "event \<Rightarrow> int" where
  "duration (Sleep d) = d"
| "duration e = 0"

definition total_sleep :: "event list \<Rightarrow> int" where
  "total_sleep es = sum_list (map duration es)"

text \<open>An operation that neither sleeps nor calls back into the loop: it adds network calls only.\<close>

definition net_only :: "'n action \<Rightarrow> bool" where
  "net_only doFunc \<longleftrightarrow> (\<forall>w. loop_events (trace (snd (doFunc w))) = loop_events (trace w))"

text \<open>The world after a failed attempt and the sleep that follows it.\<close>

definition failed_attempt :: "'n action \<Rightarrow> 'n world \<Rightarrow> 'n world" where
  "failed_attempt doFunc w = time_Sleep (1 * Second) (snd (invoke doFunc w))"

text \<open>
  What \<open>doFunc\<close> returns on \<open>n\<close> successive attempts from \<open>w\<close>, each followed
  by the sleep of a failed attempt.
\<close>

fun outcomes :: "nat \<Rightarrow> 'n action \<Rightarrow> 'n world \<Rightarrow> error option list" where
  "outcomes 0 doFunc w = []"
| "outcomes (Suc n) doFunc w = fst (invoke doFunc w) # outcomes n doFunc (failed_attempt doFunc w)"

subsection \<open>Concrete hosts, worlds and operations\<close>

text \<open>A world in which nothing has happened yet, over a registry without state.\<close>

definition world0 :: "unit world" where
  "world0 = \<lparr>net = (), trace = []\<rparr>"

text \<open>
  An operation that fails on its first calls with the errors of the list, in order,
  and succeeds from then on. It counts its calls by the invocations recorded so far.
\<close>

definition scripted :: "error list \<Rightarrow> 'n action" where
  "scripted errs w =
     (case drop (invocations (trace w) - 1) errs of
        [] \<Rightarrow> (None, w)
      | err # rest \<Rightarrow> (Some err, w))"

definition five_errors :: "error list" where
  "five_errors = [Error ''e1'', Error ''e2'', Error ''e3'', Error ''e4'', Error ''e5'']"

text \<open>
  A host with a system pool, one good bundle, one file without certificates, and no
  other file.
\<close>

definition example_host :: host where
  "example_host =
     \<lparr>x509_SystemCertPool = Inr [''system-root''],
      os_ReadFile =
        (\<lambda>path. if path = ''/certs/ca.pem'' then Inr ''-----BEGIN CERTIFICATE-----''
               else if path = ''/certs/empty.pem'' then Inr []
               else Inl (Error (''open '' @ path @ '': no such file or directory''))),
      x509_AppendCertsFromPEM =
        (\<lambda>pool certs. if certs = [] then (pool, False) else (pool @ [certs], True))\<rparr>"

definition example_opts :: "string list \<Rightarrow> Opts" where
  "example_opts paths =
     \<lparr>CACertPaths = paths, VerifyCerts = True, Insecure = False, EnvAuthPrefix = ''KBLD''\<rparr>"

text \<open>
  A registry that rejects the empty reference and answers every call with an error;
  the error of a read tells how many attempts have been made.
\<close>

definition example_library :: "unit library" where
  "example_library =
     \<lparr>regname_ParseReference =
        (\<lambda>s os. if s = [] then Inl (Error ''could not parse reference'') else Inr (TagRef (Tag s))),
      regname_NewTag =
        (\<lambda>s os. if s = [] then Inl (Error ''could not parse tag'') else Inr (Tag s)),
      regname_NewDigest =
        (\<lambda>s os. if s = [] then Inl (Error ''could not parse digest'') else Inr (Digest s)),
      regname_NewRepository =
        (\<lambda>s os. if s = [] then Inl (Error ''could not parse repository'') else Inr (Repository s)),
      lib_Get = (\<lambda>ref os w. (Inl (Error (''MANIFEST_UNKNOWN'' @ replicate (invocations (trace w)) CHR ''!'')), ())),
      lib_Image = (\<lambda>ref os w. (Inl (Error ''MANIFEST_UNKNOWN''), ())),
      lib_Write = (\<lambda>ref img os w. (Some (Error ''UNAUTHORIZED''), ())),
      lib_Index = (\<lambda>ref os w. (Inl (Error ''MANIFEST_UNKNOWN''), ())),
      lib_WriteIndex = (\<lambda>ref idx os w. (Some (Error ''UNAUTHORIZED''), ())),
      lib_Tag = (\<lambda>t desc os w. (Some (Error ''DENIED''), ())),
      lib_List = (\<lambda>repo os w. (Inl (Error ''NAME_UNKNOWN''), ()))\<rparr>"



text \<open>
  A registry on a host that serves plain HTTP only. The parser accepts its
  references by their text, whatever the options; every call, made over HTTPS,
  fails in the transport.
\<close>

definition plain_http_library :: "unit library" where
  "plain_http_library =
     example_library
       \<lparr>lib_Get :=
          (\<lambda>ref os w.
             (Inl (Error ''Get https://http-only.test/v2/: http: server gave HTTP response to HTTPS client''),
              ()))\<rparr>"

definition example_registry :: Registry where
  "example_registry = \<lparr>opts = [], refOpts = []\<rparr>"

section \<open>Properties\<close>

subsection \<open>Loading the CA certificates\<close>

lemma append_ca_certs_append:
  "append_ca_certs h (ps @ qs) pool =
   (case append_ca_certs h ps pool of Inl err \<Rightarrow> Inl err | Inr pool' \<Rightarrow> append_ca_certs h qs pool')"
  by (induction ps arbitrary: pool) (simp_all split: sum.splits prod.splits)

lemma append_ca_certs_unreadable:
  "p \<in> set paths \<Longrightarrow> os_ReadFile h p = Inl err \<Longrightarrow> isl (append_ca_certs h paths pool)"
  by (induction paths arbitrary: pool) (auto split: sum.splits prod.splits)

lemma newHTTPTransport_loaded:
  "newHTTPTransport h cfg = Inr t \<Longrightarrow> skips_verification t = (\<not> VerifyCerts cfg)"
  by (auto simp: newHTTPTransport_def skips_verification_def Let_def split: sum.splits if_splits)

subsection \<open>The retry loop, attempt by attempt\<close>

lemma loop_events_append: "loop_events (xs @ ys) = loop_events xs @ loop_events ys"
  by (simp add: loop_events_def)

lemma trace_invoke:
  "net_only doFunc \<Longrightarrow> loop_events (trace (snd (invoke doFunc w))) = loop_events (trace w) @ [Invoke]"
  by (simp add: net_only_def invoke_def loop_events_append) (simp add: loop_events_def)

lemma trace_failed_attempt:
  "net_only doFunc \<Longrightarrow>
   loop_events (trace (failed_attempt doFunc w)) = loop_events (trace w) @ [Invoke, Sleep (1 * Second)]"
  by (simp add: failed_attempt_def time_Sleep_def loop_events_append trace_invoke)
     (simp add: loop_events_def)

lemma trace_failed_attempts:
  "net_only doFunc \<Longrightarrow>
   loop_events (trace ((failed_attempt doFunc ^^ k) w)) =
   loop_events (trace w) @ concat (replicate k [Invoke, Sleep (1 * Second)])"
proof (induction k arbitrary: w)
  case 0
  show ?case by simp
next
  case (Suc k)
  have "loop_events (trace ((failed_attempt doFunc ^^ Suc k) w)) =
        loop_events (trace ((failed_attempt doFunc ^^ k) (failed_attempt doFunc w)))"
    by (simp add: funpow_swap1)
  also have "\<dots> = loop_events (trace (failed_attempt doFunc w)) @ concat (replicate k [Invoke, Sleep (1 * Second)])"
    using Suc by simp
  finally show ?case
    using Suc.prems by (simp add: trace_failed_attempt)
qed

lemma retry_loop_done: "retry_loop 5 lastErr doFunc w = (Some (fmt_Errorf ''Retried 5 times: '' lastErr), w)"
  by (simp add: retry_loop.simps)

lemma retry_loop_success:
  "i < 5 \<Longrightarrow> fst (invoke doFunc w) = None \<Longrightarrow> retry_loop i lastErr doFunc w = (None, snd (invoke doFunc w))"
  by (subst retry_loop.simps) (cases "invoke doFunc w", simp)

lemma retry_loop_failure:
  "i < 5 \<Longrightarrow> fst (invoke doFunc w) = Some err \<Longrightarrow>
   retry_loop i lastErr doFunc w = retry_loop (i + 1) (Some err) doFunc (failed_attempt doFunc w)"
  by (subst retry_loop.simps) (cases "invoke doFunc w", simp add: failed_attempt_def)

lemma retry_loop_failures:
  "i + length errs \<le> 5 \<Longrightarrow> outcomes (length errs) doFunc w = map Some errs \<Longrightarrow>
   retry_loop i lastErr doFunc w =
   retry_loop (i + length errs) (if errs = [] then lastErr else Some (last errs)) doFunc
     ((failed_attempt doFunc ^^ length errs) w)"
proof (induction errs arbitrary: i lastErr w)
  case Nil
  show ?case by simp
next
  case (Cons e errs)
  from Cons.prems have i: "i < 5" and first: "fst (invoke doFunc w) = Some e"
    and rest: "outcomes (length errs) doFunc (failed_attempt doFunc w) = map Some errs"
    by simp_all
  have "retry_loop i lastErr doFunc w = retry_loop (i + 1) (Some e) doFunc (failed_attempt doFunc w)"
    using i first by (rule retry_loop_failure)
  also have "\<dots> = retry_loop (i + 1 + length errs) (if errs = [] then Some e else Some (last errs)) doFunc
     ((failed_attempt doFunc ^^ length errs) (failed_attempt doFunc w))"
    using Cons.prems(1) rest by (intro Cons.IH) simp_all
  finally show ?case
    by (simp add: funpow_swap1)
qed

lemma invocations_loop_events: "invocations (loop_events es) = invocations es"
  unfolding invocations_def loop_events_def by (induction es) auto

lemma sleeps_loop_events: "sleeps (loop_events es) = sleeps es"
proof (induction es)
  case Nil
  show ?case by (simp add: sleeps_def loop_events_def)
next
  case (Cons e es)
  then show ?case by (cases e) (simp_all add: sleeps_def loop_events_def)
qed

lemma total_sleep_loop_events: "total_sleep (loop_events es) = total_sleep es"
proof (induction es)
  case Nil
  show ?case by (simp add: total_sleep_def loop_events_def)
next
  case (Cons e es)
  then show ?case by (cases e) (simp_all add: total_sleep_def loop_events_def)
qed

lemma invocations_rounds:
  "invocations (xs @ concat (replicate k [Invoke, Sleep d]) @ ys) = invocations xs + k + invocations ys"
  unfolding invocations_def by (induction k) auto

lemma sleeps_rounds:
  "sleeps (xs @ concat (replicate k [Invoke, Sleep d]) @ ys) = sleeps xs + k + sleeps ys"
  unfolding sleeps_def by (induction k) auto

lemma total_sleep_rounds:
  "total_sleep (xs @ concat (replicate k [Invoke, Sleep d]) @ ys) =
   total_sleep xs + int k * d + total_sleep ys"
  unfolding total_sleep_def by (induction k) (auto simp: algebra_simps)

text \<open>The counts of a trace, from its loop events alone.\<close>

lemma counts_from_loop_events:
  assumes "loop_events es' = loop_events es @ concat (replicate k [Invoke, Sleep d]) @ ys"
  shows "invocations es' = invocations es + k + invocations ys"
    and "sleeps es' = sleeps es + k + sleeps ys"
    and "total_sleep es' = total_sleep es + int k * d + total_sleep ys"
proof -
  have "invocations es' = invocations (loop_events es')"
    by (simp only: invocations_loop_events)
  then show "invocations es' = invocations es + k + invocations ys"
    by (simp only: assms invocations_rounds invocations_loop_events)
  have "sleeps es' = sleeps (loop_events es')"
    by (simp only: sleeps_loop_events)
  then show "sleeps es' = sleeps es + k + sleeps ys"
    by (simp only: assms sleeps_rounds sleeps_loop_events)
  have "total_sleep es' = total_sleep (loop_events es')"
    by (simp only: total_sleep_loop_events)
  then show "total_sleep es' = total_sleep es + int k * d + total_sleep ys"
    by (simp only: assms total_sleep_rounds total_sleep_loop_events)
qed

lemma outcomes_length: "length (outcomes n doFunc w) = n"
  by (induction n arbitrary: w) simp_all

lemma retry_exhausted_result:
  assumes "outcomes 5 doFunc w = map Some errs"
  shows "retry doFunc w =
         (Some (Error (''Retried 5 times: '' @ Error_msg (last errs))), (failed_attempt doFunc ^^ 5) w)"
proof -
  have "length (outcomes 5 doFunc w) = length (map Some errs)"
    using assms by (rule arg_cong)
  then have len: "length errs = 5"
    by (simp only: outcomes_length length_map)
  then have ne: "errs \<noteq> []" by auto
  have "retry_loop 0 None doFunc w =
        retry_loop (0 + length errs) (if errs = [] then None else Some (last errs)) doFunc
          ((failed_attempt doFunc ^^ length errs) w)"
    using assms len by (intro retry_loop_failures) simp_all
  then show ?thesis
    using len ne by (simp add: retry_def retry_loop_done fmt_Errorf_def)
qed

lemma retry_success_result:
  assumes "k < 5" and "outcomes (Suc k) doFunc w = map Some errs @ [None]"
  shows "retry doFunc w = (None, snd (invoke doFunc ((failed_attempt doFunc ^^ k) w)))"
proof -
  have "length (outcomes (Suc k) doFunc w) = length (map Some errs @ [None])"
    using assms(2) by (rule arg_cong)
  then have len: "length errs = k"
    by (simp only: outcomes_length length_append length_map) simp
  have split: "outcomes (Suc k) doFunc w =
        outcomes k doFunc w @ [fst (invoke doFunc ((failed_attempt doFunc ^^ k) w))]"
    for k and w :: "'a world"
    by (induction k arbitrary: w) (simp_all add: funpow_swap1)
  from assms(2) len have fails: "outcomes (length errs) doFunc w = map Some errs"
    and ok: "fst (invoke doFunc ((failed_attempt doFunc ^^ k) w)) = None"
    using split [of k w] outcomes_length [of k doFunc w] by auto
  have "retry_loop 0 None doFunc w =
        retry_loop (0 + length errs) (if errs = [] then None else Some (last errs)) doFunc
          ((failed_attempt doFunc ^^ length errs) w)"
    using assms(1) len fails by (intro retry_loop_failures) simp_all
  then show ?thesis
    using len assms(1) ok by (simp add: retry_def retry_loop_success)
qed

lemma net_only_scripted: "net_only (scripted errs)"
  by (simp add: net_only_def scripted_def split: list.splits)

lemma after_failures_counts:
  assumes "net_only doFunc"
  shows "invocations (trace ((failed_attempt doFunc ^^ k) w)) = invocations (trace w) + k"
    and "sleeps (trace ((failed_attempt doFunc ^^ k) w)) = sleeps (trace w) + k"
    and "total_sleep (trace ((failed_attempt doFunc ^^ k) w)) = total_sleep (trace w) + int k * Second"
proof -
  have ev: "loop_events (trace ((failed_attempt doFunc ^^ k) w)) =
            loop_events (trace w) @ concat (replicate k [Invoke, Sleep (1 * Second)]) @ []"
    using assms by (simp add: trace_failed_attempts)
  show "invocations (trace ((failed_attempt doFunc ^^ k) w)) = invocations (trace w) + k"
    using counts_from_loop_events(1) [OF ev] by (simp add: invocations_def)
  show "sleeps (trace ((failed_attempt doFunc ^^ k) w)) = sleeps (trace w) + k"
    using counts_from_loop_events(2) [OF ev] by (simp add: sleeps_def)
  show "total_sleep (trace ((failed_attempt doFunc ^^ k) w)) = total_sleep (trace w) + int k * Second"
    using counts_from_loop_events(3) [OF ev] by (simp add: total_sleep_def)
qed

lemma after_success_counts:
  assumes "net_only doFunc"
  shows "invocations (trace (snd (invoke doFunc w))) = invocations (trace w) + 1"
    and "sleeps (trace (snd (invoke doFunc w))) = sleeps (trace w)"
    and "total_sleep (trace (snd (invoke doFunc w))) = total_sleep (trace w)"
proof -
  have ev: "loop_events (trace (snd (invoke doFunc w))) =
            loop_events (trace w) @ concat (replicate 0 [Invoke, Sleep 0]) @ [Invoke]"
    using assms by (simp add: trace_invoke)
  show "invocations (trace (snd (invoke doFunc w))) = invocations (trace w) + 1"
    using counts_from_loop_events(1) [OF ev] by (simp add: invocations_def)
  show "sleeps (trace (snd (invoke doFunc w))) = sleeps (trace w)"
    using counts_from_loop_events(2) [OF ev] by (simp add: sleeps_def)
  show "total_sleep (trace (snd (invoke doFunc w))) = total_sleep (trace w)"
    using counts_from_loop_events(3) [OF ev] by (simp add: total_sleep_def)
qed

subsection \<open>Certificate verification (C1)\<close>

text \<open>
  C1, as the code has it. The transport skips the verification of the server
  certificate exactly when \<open>VerifyCerts\<close> is false. The flag is a Go
  \<open>bool\<close>: a configuration that leaves it out holds false, so the transport built
  from \<open>Opts{}\<close> skips verification; verification is enforced only when the flag
  is set to true.
\<close>

theorem transport_skips_verification_iff_flag_false:
  "(newHTTPTransport h cfg = Inr t \<longrightarrow> (skips_verification t \<longleftrightarrow> \<not> VerifyCerts cfg))
   \<and> map_sum id skips_verification (newHTTPTransport h Opts_zero) = Inr True"
  by (simp add: newHTTPTransport_loaded)
     (simp add: newHTTPTransport_def Opts_zero_def skips_verification_def)

text \<open>C1 at a configuration with one good bundle and the flag set: verification is enforced.\<close>

theorem transport_skips_verification_iff_flag_false_witness:
  "newHTTPTransport example_host (example_opts [''/certs/ca.pem'']) =
     Inr \<lparr>Proxy = ProxyFromEnvironment,
          DialContext = \<lparr>Timeout = 30 * Second, KeepAlive = 30 * Second, DualStack = True\<rparr>,
          MaxIdleConns = 100,
          IdleConnTimeout = 90 * Second,
          TLSHandshakeTimeout = 10 * Second,
          ResponseHeaderTimeout = 10 * Second,
          ExpectContinueTimeout = 1 * Second,
          TLSClientConfig =
            \<lparr>RootCAs = [''system-root'', ''-----BEGIN CERTIFICATE-----''], InsecureSkipVerify = False\<rparr>\<rparr>
   \<and> \<not> skips_verification
        \<lparr>Proxy = ProxyFromEnvironment,
          DialContext = \<lparr>Timeout = 30 * Second, KeepAlive = 30 * Second, DualStack = True\<rparr>,
          MaxIdleConns = 100,
          IdleConnTimeout = 90 * Second,
          TLSHandshakeTimeout = 10 * Second,
          ResponseHeaderTimeout = 10 * Second,
          ExpectContinueTimeout = 1 * Second,
          TLSClientConfig =
            \<lparr>RootCAs = [''system-root'', ''-----BEGIN CERTIFICATE-----''], InsecureSkipVerify = False\<rparr>\<rparr>"
proof -
  let ?t = "\<lparr>Proxy = ProxyFromEnvironment,
          DialContext = \<lparr>Timeout = 30 * Second, KeepAlive = 30 * Second, DualStack = True\<rparr>,
          MaxIdleConns = 100,
          IdleConnTimeout = 90 * Second,
          TLSHandshakeTimeout = 10 * Second,
          ResponseHeaderTimeout = 10 * Second,
          ExpectContinueTimeout = 1 * Second,
          TLSClientConfig =
            \<lparr>RootCAs = [''system-root'', ''-----BEGIN CERTIFICATE-----''], InsecureSkipVerify = False\<rparr>\<rparr>"
  have h: "newHTTPTransport example_host (example_opts [''/certs/ca.pem'']) = Inr ?t"
    by (simp add: newHTTPTransport_def example_host_def example_opts_def system_pool_def)
  have v: "VerifyCerts (example_opts [''/certs/ca.pem''])"
    by (simp add: example_opts_def)
  from transport_skips_verification_iff_flag_false [of example_host "example_opts [''/certs/ca.pem'']" ?t]
  show ?thesis using h v by simp
qed

text \<open>
  C1 as stated says that an omitted flag means enforced verification. The
  transport built from the zero configuration skips it.
\<close>

theorem default_flag_skips_verification_counterexample:
  "map_sum id skips_verification (newHTTPTransport example_host Opts_zero) = Inr True"
  by (simp add: newHTTPTransport_def Opts_zero_def skips_verification_def)

subsection \<open>The certificate pool fails fast (C4)\<close>

text \<open>
  C4. Let \<open>p\<close> be a CA path all of whose predecessors \<open>ps\<close> load. If
  \<open>p\<close> cannot be read, the result is the read error, with the path and the
  cause in its message; if \<open>p\<close> holds no certificate, the result is the
  parse error, with the path in its message; the two errors differ; and in both
  cases the paths \<open>qs\<close> after \<open>p\<close> play no part, so nothing is aggregated.
\<close>

theorem ca_loading_fails_fast:
  assumes "CACertPaths cfg = ps @ p # qs"
    and "append_ca_certs h ps (system_pool h) = Inr pool"
  shows "(os_ReadFile h p = Inl err \<longrightarrow>
            newHTTPTransport h cfg =
              Inl (Error (''Reading CA certificates from '' @ [apostrophe] @ p @ [apostrophe] @ '': ''
                          @ Error_msg err)))
       \<and> (os_ReadFile h p = Inr certs \<and> \<not> snd (x509_AppendCertsFromPEM h pool certs) \<longrightarrow>
            newHTTPTransport h cfg =
              Inl (Error (''Adding CA certificates from '' @ [apostrophe] @ p @ [apostrophe]
                          @ '': failed'')))
       \<and> Error (''Reading CA certificates from '' @ [apostrophe] @ p @ [apostrophe] @ '': ''
                 @ Error_msg err)
         \<noteq> Error (''Adding CA certificates from '' @ [apostrophe] @ p @ [apostrophe] @ '': failed'')"
  using assms
  by (simp add: newHTTPTransport_def append_ca_certs_append split: prod.splits)

text \<open>C4 on the example host: a missing file, and a file without certificates, each in second place.\<close>

theorem ca_loading_fails_fast_witness:
  "newHTTPTransport example_host (example_opts [''/certs/ca.pem'', ''/missing.pem'', ''/certs/empty.pem'']) =
     Inl (Error ''Reading CA certificates from '/missing.pem': open /missing.pem: no such file or directory'')
   \<and> newHTTPTransport example_host (example_opts [''/certs/ca.pem'', ''/certs/empty.pem'', ''/missing.pem'']) =
     Inl (Error ''Adding CA certificates from '/certs/empty.pem': failed'')"
proof -
  let ?pool = "[''system-root'', ''-----BEGIN CERTIFICATE-----'']"
  have ok: "append_ca_certs example_host [''/certs/ca.pem''] (system_pool example_host) = Inr ?pool"
    by (simp add: example_host_def system_pool_def)
  have p1: "CACertPaths (example_opts [''/certs/ca.pem'', ''/missing.pem'', ''/certs/empty.pem'']) =
            [''/certs/ca.pem''] @ ''/missing.pem'' # [''/certs/empty.pem'']"
    by (simp add: example_opts_def)
  have p2: "CACertPaths (example_opts [''/certs/ca.pem'', ''/certs/empty.pem'', ''/missing.pem'']) =
            [''/certs/ca.pem''] @ ''/certs/empty.pem'' # [''/missing.pem'']"
    by (simp add: example_opts_def)
  have r1: "os_ReadFile example_host ''/missing.pem'' =
            Inl (Error ''open /missing.pem: no such file or directory'')"
    by (simp add: example_host_def)
  have r2: "os_ReadFile example_host ''/certs/empty.pem'' = Inr []
            \<and> \<not> snd (x509_AppendCertsFromPEM example_host ?pool [])"
    by (simp add: example_host_def)
  show ?thesis
    using ca_loading_fails_fast [OF p1 ok, of "Error ''open /missing.pem: no such file or directory''" "[]"]
      ca_loading_fails_fast [OF p2 ok, of "Error ''x''" "[]"] r1 r2
    by (simp add: apostrophe_def)
qed

subsection \<open>The retry loop when every attempt fails (C2)\<close>

text \<open>
  C2, as the code has it. When the five attempts return the errors \<open>errs\<close>,
  \<open>retry\<close> has called the operation exactly 5 times and returns one error,
  \<open>Retried 5 times: \<close> followed by the message of the last of them only. It
  sleeps one second after each failed attempt, the fifth included: 5 sleeps, not 4.
\<close>

theorem retry_exhausted:
  assumes "net_only doFunc" and "outcomes 5 doFunc w = map Some errs"
  shows "fst (retry doFunc w) = Some (Error (''Retried 5 times: '' @ Error_msg (last errs)))
       \<and> invocations (trace (snd (retry doFunc w))) = invocations (trace w) + 5
       \<and> sleeps (trace (snd (retry doFunc w))) = sleeps (trace w) + 5
       \<and> total_sleep (trace (snd (retry doFunc w))) = total_sleep (trace w) + 5 * Second"
  using after_failures_counts [OF assms(1), of 5 w]
  by (simp add: retry_exhausted_result [OF assms(2)])

text \<open>C2 on an operation that fails with \<open>e1\<close>, ..., \<open>e5\<close>: the result carries \<open>e5\<close>.\<close>

theorem retry_exhausted_witness:
  "net_only (scripted five_errors :: unit action)
   \<and> outcomes 5 (scripted five_errors) world0 = map Some five_errors
   \<and> fst (retry (scripted five_errors) world0) = Some (Error ''Retried 5 times: e5'')
   \<and> invocations (trace (snd (retry (scripted five_errors) world0))) = 5
   \<and> sleeps (trace (snd (retry (scripted five_errors) world0))) = 5
   \<and> total_sleep (trace (snd (retry (scripted five_errors) world0))) = 5 * Second"
proof -
  have n: "net_only (scripted five_errors :: unit action)"
    by (rule net_only_scripted)
  have o: "outcomes 5 (scripted five_errors) world0 = map Some five_errors"
    by (simp add: eval_nat_numeral five_errors_def scripted_def world0_def invoke_def
          failed_attempt_def time_Sleep_def invocations_def)
  have t: "invocations (trace world0) = 0" "sleeps (trace world0) = 0" "total_sleep (trace world0) = 0"
    by (simp_all add: world0_def invocations_def sleeps_def total_sleep_def)
  have l: "Error_msg (last five_errors) = ''e5''"
    by (simp add: five_errors_def)
  show ?thesis
    using retry_exhausted [OF n o] n o by (simp add: t l)
qed

text \<open>
  C2 as stated counts 4 sleeps for 5 failed attempts. The trace of that run holds 5.
\<close>

theorem retry_sleeps_counterexample:
  "sleeps (trace (snd (retry (scripted five_errors) world0))) = 5"
  by (simp add: retry_def retry_loop.simps five_errors_def scripted_def world0_def invoke_def
        time_Sleep_def invocations_def sleeps_def)

subsection \<open>The retry loop when an attempt succeeds (C3)\<close>

text \<open>
  C3. When the operation fails \<open>k < 5\<close> times and then succeeds, \<open>retry\<close>
  returns nil at that first success, has called the operation exactly \<open>k + 1\<close>
  times, and has slept at least \<open>k\<close> seconds.
\<close>

theorem retry_succeeds_after_failures:
  assumes "k < 5" and "net_only doFunc" and "outcomes (Suc k) doFunc w = map Some errs @ [None]"
  shows "fst (retry doFunc w) = None
       \<and> invocations (trace (snd (retry doFunc w))) = invocations (trace w) + (k + 1)
       \<and> total_sleep (trace (snd (retry doFunc w))) - total_sleep (trace w) \<ge> int k * Second"
  using after_failures_counts [OF assms(2), of k w]
    after_success_counts [OF assms(2), of "(failed_attempt doFunc ^^ k) w"]
  by (simp add: retry_success_result [OF assms(1) assms(3)])

text \<open>C3 on an operation that fails twice and then succeeds.\<close>

theorem retry_succeeds_after_failures_witness:
  "(2::nat) < 5
   \<and> net_only (scripted [Error ''e1'', Error ''e2''] :: unit action)
   \<and> outcomes (Suc 2) (scripted [Error ''e1'', Error ''e2'']) world0 =
       map Some [Error ''e1'', Error ''e2''] @ [None]
   \<and> fst (retry (scripted [Error ''e1'', Error ''e2'']) world0) = None
   \<and> invocations (trace (snd (retry (scripted [Error ''e1'', Error ''e2'']) world0))) = 3
   \<and> total_sleep (trace (snd (retry (scripted [Error ''e1'', Error ''e2'']) world0))) \<ge> 2 * Second"
proof -
  have k: "(2::nat) < 5"
    by simp
  have n: "net_only (scripted [Error ''e1'', Error ''e2''] :: unit action)"
    by (rule net_only_scripted)
  have o: "outcomes (Suc 2) (scripted [Error ''e1'', Error ''e2'']) world0 =
           map Some [Error ''e1'', Error ''e2''] @ [None]"
    by (simp add: eval_nat_numeral scripted_def world0_def invoke_def failed_attempt_def
          time_Sleep_def invocations_def)
  have t: "invocations (trace world0) = 0" "total_sleep (trace world0) = 0"
    by (simp_all add: world0_def invocations_def total_sleep_def)
  show ?thesis
    using retry_succeeds_after_failures [OF k n o] n o by (simp add: t)
qed

subsection \<open>Where the retry loop sleeps (C10)\<close>

text \<open>
  C10. \<open>retry\<close> sleeps one second after every failed attempt, the last one
  included. When all 5 attempts fail, the loop is five rounds of a call and a sleep:
  5 sleeps, 5 seconds. When attempt \<open>k + 1\<close> succeeds, it is \<open>k\<close> such rounds
  and the successful call, with no sleep after it: \<open>k\<close> sleeps.
\<close>

theorem retry_sleeps_after_every_failure:
  assumes "net_only doFunc"
  shows "(outcomes 5 doFunc w = map Some errs \<longrightarrow>
            loop_events (trace (snd (retry doFunc w))) =
              loop_events (trace w) @ concat (replicate 5 [Invoke, Sleep (1 * Second)])
          \<and> sleeps (trace (snd (retry doFunc w))) = sleeps (trace w) + 5
          \<and> total_sleep (trace (snd (retry doFunc w))) = total_sleep (trace w) + 5 * Second)
       \<and> (k < 5 \<and> outcomes (Suc k) doFunc w = map Some errs @ [None] \<longrightarrow>
            loop_events (trace (snd (retry doFunc w))) =
              loop_events (trace w) @ concat (replicate k [Invoke, Sleep (1 * Second)]) @ [Invoke]
          \<and> sleeps (trace (snd (retry doFunc w))) = sleeps (trace w) + k)"
proof (intro conjI impI)
  assume o: "outcomes 5 doFunc w = map Some errs"
  show "loop_events (trace (snd (retry doFunc w))) =
          loop_events (trace w) @ concat (replicate 5 [Invoke, Sleep (1 * Second)])"
    using trace_failed_attempts [OF assms, of 5 w] by (simp add: retry_exhausted_result [OF o])
  show "sleeps (trace (snd (retry doFunc w))) = sleeps (trace w) + 5"
    using after_failures_counts(2) [OF assms, of 5 w] by (simp add: retry_exhausted_result [OF o])
  show "total_sleep (trace (snd (retry doFunc w))) = total_sleep (trace w) + 5 * Second"
    using after_failures_counts(3) [OF assms, of 5 w] by (simp add: retry_exhausted_result [OF o])
next
  assume "k < 5 \<and> outcomes (Suc k) doFunc w = map Some errs @ [None]"
  then have r: "retry doFunc w = (None, snd (invoke doFunc ((failed_attempt doFunc ^^ k) w)))"
    by (intro retry_success_result) simp_all
  show "loop_events (trace (snd (retry doFunc w))) =
          loop_events (trace w) @ concat (replicate k [Invoke, Sleep (1 * Second)]) @ [Invoke]"
    using trace_failed_attempts [OF assms, of k w]
      trace_invoke [OF assms, of "(failed_attempt doFunc ^^ k) w"]
    by (simp add: r)
  show "sleeps (trace (snd (retry doFunc w))) = sleeps (trace w) + k"
    using after_failures_counts(2) [OF assms, of k w]
      after_success_counts(2) [OF assms, of "(failed_attempt doFunc ^^ k) w"]
    by (simp add: r)
qed

text \<open>C10 on the operation that fails five times and on the one that fails twice.\<close>

theorem retry_sleeps_after_every_failure_witness:
  "net_only (scripted five_errors :: unit action)
   \<and> net_only (scripted [Error ''e1'', Error ''e2''] :: unit action)
   \<and> loop_events (trace (snd (retry (scripted five_errors) world0))) =
       concat (replicate 5 [Invoke, Sleep (1 * Second)])
   \<and> sleeps (trace (snd (retry (scripted five_errors) world0))) = 5
   \<and> total_sleep (trace (snd (retry (scripted five_errors) world0))) = 5 * Second
   \<and> loop_events (trace (snd (retry (scripted [Error ''e1'', Error ''e2'']) world0))) =
       [Invoke, Sleep (1 * Second), Invoke, Sleep (1 * Second), Invoke]
   \<and> sleeps (trace (snd (retry (scripted [Error ''e1'', Error ''e2'']) world0))) = 2"
proof -
  have n5: "net_only (scripted five_errors :: unit action)"
    by (rule net_only_scripted)
  have n2: "net_only (scripted [Error ''e1'', Error ''e2''] :: unit action)"
    by (rule net_only_scripted)
  have o5: "outcomes 5 (scripted five_errors) world0 = map Some five_errors"
    by (simp add: eval_nat_numeral five_errors_def scripted_def world0_def invoke_def
          failed_attempt_def time_Sleep_def invocations_def)
  have o2: "(2::nat) < 5 \<and> outcomes (Suc 2) (scripted [Error ''e1'', Error ''e2'']) world0 =
           map Some [Error ''e1'', Error ''e2''] @ [None]"
    by (simp add: eval_nat_numeral scripted_def world0_def invoke_def failed_attempt_def
          time_Sleep_def invocations_def)
  have t: "loop_events (trace world0) = []" "sleeps (trace world0) = 0" "total_sleep (trace world0) = 0"
    by (simp_all add: world0_def loop_events_def sleeps_def total_sleep_def)
  from retry_sleeps_after_every_failure [OF n5, where w = world0 and errs = five_errors and k = 0] o5
  have a: "loop_events (trace (snd (retry (scripted five_errors) world0))) =
             concat (replicate 5 [Invoke, Sleep (1 * Second)])
           \<and> sleeps (trace (snd (retry (scripted five_errors) world0))) = 5
           \<and> total_sleep (trace (snd (retry (scripted five_errors) world0))) = 5 * Second"
    by (simp add: t)
  from retry_sleeps_after_every_failure [OF n2, where w = world0 and errs = "[Error ''e1'', Error ''e2'']" and k = 2] o2
  have b: "loop_events (trace (snd (retry (scripted [Error ''e1'', Error ''e2'']) world0))) =
             [Invoke, Sleep (1 * Second), Invoke, Sleep (1 * Second), Invoke]
           \<and> sleeps (trace (snd (retry (scripted [Error ''e1'', Error ''e2'']) world0))) = 2"
    by (simp add: t eval_nat_numeral)
  show ?thesis
    using n5 n2 a b by simp
qed

subsection \<open>Construction of the client\<close>

lemma NewRegistry_transport_error:
  "newHTTPTransport h cfg = Inl err \<Longrightarrow> NewRegistry h cfg = Inl err"
  by (simp add: NewRegistry_def)

lemma NewRegistry_refOpts:
  "NewRegistry h cfg = Inr i \<Longrightarrow> refOpts i = (if Insecure cfg then [regname_Insecure] else [])"
  by (auto simp: NewRegistry_def Let_def split: sum.splits)

lemma newHTTPTransport_unreadable:
  assumes "p \<in> set (CACertPaths cfg)" and "os_ReadFile h p = Inl err"
  shows "isl (newHTTPTransport h cfg)"
proof -
  from assms(1) have "length (CACertPaths cfg) > 0"
    by auto
  moreover have "isl (append_ca_certs h (CACertPaths cfg) (system_pool h))"
    using assms by (rule append_ca_certs_unreadable)
  ultimately show ?thesis
    by (auto simp: newHTTPTransport_def split: sum.splits)
qed

lemma newHTTPTransport_first_unreadable:
  assumes "CACertPaths cfg = ps @ p # qs"
    and "append_ca_certs h ps (system_pool h) = Inr pool"
    and "os_ReadFile h p = Inl err"
  shows "newHTTPTransport h cfg =
         Inl (Error (''Reading CA certificates from '' @ [apostrophe] @ p @ [apostrophe] @ '': ''
                     @ Error_msg err))"
  using assms by (simp add: newHTTPTransport_def append_ca_certs_append)

subsection \<open>More on the retry loop: the last failure, the full trace\<close>





lemma all_Some: "None \<notin> set xs \<Longrightarrow> xs = map Some (map the xs)"
  by (induction xs) auto

lemma retry_none_some_attempt:
  assumes "fst (retry doFunc w) = None"
  shows "None \<in> set (outcomes 5 doFunc w)"
proof (rule ccontr)
  assume "None \<notin> set (outcomes 5 doFunc w)"
  then have "outcomes 5 doFunc w = map Some (map the (outcomes 5 doFunc w))"
    by (rule all_Some)
  then have "fst (retry doFunc w) \<noteq> None"
    using retry_exhausted_result [of doFunc w "map the (outcomes 5 doFunc w)"] by simp
  with assms show False by simp
qed





subsection \<open>The operations, call by call\<close>

lemma prefixed_differs: "prefix \<noteq> [] \<Longrightarrow> Some (fmt_Errorf prefix (Some err)) \<noteq> Some err"
  by (cases err) (simp add: fmt_Errorf_def)

lemma perform_result: "fst (perform c f w) = fst (f w)"
  by (simp add: perform_def split: prod.splits)

lemma perform_trace: "trace (snd (perform c f w)) = trace w @ [Net c]"
  by (simp add: perform_def split: prod.splits)

lemma Generic_parsed:
  assumes "regname_ParseReference lib (reference_String ref) (refOpts i) = Inr ref'"
  shows "fst (Generic lib i ref w) = map_sum id Descriptor (fst (lib_Get lib ref' (opts i) w))"
    and "trace (snd (Generic lib i ref w)) = trace w @ [Net (CallGet ref')]"
  using assms perform_result [of "CallGet ref'" "lib_Get lib ref' (opts i)" w]
    perform_trace [of "CallGet ref'" "lib_Get lib ref' (opts i)" w]
  by (cases "perform (CallGet ref') (lib_Get lib ref' (opts i)) w";
      cases "fst (perform (CallGet ref') (lib_Get lib ref' (opts i)) w)";
      simp add: Generic_def regremote_Get_def)+

lemma write_exhausted:
  assumes "outcomes 5 doFunc w = map Some errs"
  shows "(case retry doFunc w of
            (Some err, w') \<Rightarrow> (Some (fmt_Errorf label (Some err)), w')
          | (None, w') \<Rightarrow> (None, w')) =
         (Some (Error (label @ ''Retried 5 times: '' @ Error_msg (last errs))),
          (failed_attempt doFunc ^^ 5) w)"
  by (simp add: retry_exhausted_result [OF assms] fmt_Errorf_def)

lemma write_success:
  assumes "fst (case retry doFunc w of
            (Some err, w') \<Rightarrow> (Some (fmt_Errorf label (Some err)), w')
          | (None, w') \<Rightarrow> (None, w')) = None"
  shows "None \<in> set (outcomes 5 doFunc w)"
proof -
  from assms have "fst (retry doFunc w) = None"
    by (cases "retry doFunc w"; cases "fst (retry doFunc w)") auto
  then show ?thesis
    by (rule retry_none_some_attempt)
qed

subsection \<open>A CA path that cannot be read (C5)\<close>

text \<open>
  C5, as the code has it. When some CA path of the configuration cannot be read,
  \<open>NewRegistry\<close> fails and returns no client: every error of the certificate
  loading aborts the construction. The error is the one of the first path, in list
  order, that fails to load; it is the read error naming the unreadable path \<open>p\<close>
  exactly when all the paths before \<open>p\<close> load.
\<close>

theorem unreadable_ca_path_aborts_construction:
  assumes "p \<in> set (CACertPaths cfg)" and "os_ReadFile h p = Inl err"
  shows "isl (NewRegistry h cfg)
       \<and> (\<forall>ps qs pool.
            CACertPaths cfg = ps @ p # qs \<and> append_ca_certs h ps (system_pool h) = Inr pool \<longrightarrow>
            NewRegistry h cfg =
              Inl (Error (''Reading CA certificates from '' @ [apostrophe] @ p @ [apostrophe] @ '': ''
                          @ Error_msg err)))
       \<and> (\<forall>e. newHTTPTransport h cfg = Inl e \<longrightarrow> NewRegistry h cfg = Inl e)"
proof (intro conjI allI impI)
  from newHTTPTransport_unreadable [OF assms]
  obtain e where "newHTTPTransport h cfg = Inl e"
    by (cases "newHTTPTransport h cfg") auto
  then show "isl (NewRegistry h cfg)"
    by (simp add: NewRegistry_transport_error)
next
  fix ps qs pool
  assume "CACertPaths cfg = ps @ p # qs \<and> append_ca_certs h ps (system_pool h) = Inr pool"
  then show "NewRegistry h cfg =
              Inl (Error (''Reading CA certificates from '' @ [apostrophe] @ p @ [apostrophe] @ '': ''
                          @ Error_msg err))"
    using assms(2) by (intro NewRegistry_transport_error newHTTPTransport_first_unreadable) auto
next
  fix e
  assume "newHTTPTransport h cfg = Inl e"
  then show "NewRegistry h cfg = Inl e"
    by (rule NewRegistry_transport_error)
qed

text \<open>C5 on the example host, the missing file behind a good bundle.\<close>

theorem unreadable_ca_path_aborts_construction_witness:
  "''/missing.pem'' \<in> set (CACertPaths (example_opts [''/certs/ca.pem'', ''/missing.pem'']))
   \<and> os_ReadFile example_host ''/missing.pem'' =
       Inl (Error ''open /missing.pem: no such file or directory'')
   \<and> isl (NewRegistry example_host (example_opts [''/certs/ca.pem'', ''/missing.pem'']))
   \<and> NewRegistry example_host (example_opts [''/certs/ca.pem'', ''/missing.pem'']) =
       Inl (Error ''Reading CA certificates from '/missing.pem': open /missing.pem: no such file or directory'')"
proof -
  let ?cfg = "example_opts [''/certs/ca.pem'', ''/missing.pem'']"
  let ?pool = "[''system-root'', ''-----BEGIN CERTIFICATE-----'']"
  have m: "''/missing.pem'' \<in> set (CACertPaths ?cfg)"
    by (simp add: example_opts_def)
  have r: "os_ReadFile example_host ''/missing.pem'' =
           Inl (Error ''open /missing.pem: no such file or directory'')"
    by (simp add: example_host_def)
  have s: "CACertPaths ?cfg = [''/certs/ca.pem''] @ ''/missing.pem'' # []
           \<and> append_ca_certs example_host [''/certs/ca.pem''] (system_pool example_host) = Inr ?pool"
    by (simp add: example_opts_def example_host_def system_pool_def)
  from unreadable_ca_path_aborts_construction [OF m r]
  have "isl (NewRegistry example_host ?cfg)"
    and "CACertPaths ?cfg = [''/certs/ca.pem''] @ ''/missing.pem'' # []
           \<and> append_ca_certs example_host [''/certs/ca.pem''] (system_pool example_host) = Inr ?pool \<longrightarrow>
         NewRegistry example_host ?cfg =
           Inl (Error (''Reading CA certificates from '' @ [apostrophe] @ ''/missing.pem'' @ [apostrophe]
                       @ '': '' @ Error_msg (Error ''open /missing.pem: no such file or directory'')))"
    by blast+
  then show ?thesis
    using m r s by (simp add: apostrophe_def)
qed

text \<open>
  C5 as stated promises an error that names the missing path for every
  configuration that contains one. With a file without certificates listed before
  it, the error names that file, and the missing path is never read.
\<close>

theorem later_missing_ca_path_counterexample:
  "os_ReadFile example_host ''/missing.pem'' =
     Inl (Error ''open /missing.pem: no such file or directory'')
   \<and> NewRegistry example_host (example_opts [''/certs/empty.pem'', ''/missing.pem'']) =
     Inl (Error ''Adding CA certificates from '/certs/empty.pem': failed'')"
  by (simp add: NewRegistry_def newHTTPTransport_def example_host_def example_opts_def
        system_pool_def apostrophe_def)

subsection \<open>Tagging: read, then tag, in one attempt (C6)\<close>



subsection \<open>Which errors the caller sees (C7)\<close>

text \<open>
  C7, as the code has it. A read operation (\<open>Generic\<close>, \<open>Image\<close>,
  \<open>Index\<close>, \<open>ListTags\<close>) makes one registry call, without retry, and
  returns its error as it is. A write or tag operation whose five attempts all fail
  returns \<open>Writing image: \<close>, \<open>Writing image index: \<close> or
  \<open>Writing image tag: \<close>, then \<open>Retried 5 times: \<close>, then the message
  of the last failure; it returns nil only when an attempt has returned nil. An
  error of reference parsing is returned as it is by every operation, the write and
  tag operations included: it carries no label.
\<close>

theorem operation_errors_reach_caller:
  "(regname_ParseReference lib (reference_String ref) (refOpts i) = Inr ref' \<longrightarrow>
      fst (Generic lib i ref w) = map_sum id Descriptor (fst (lib_Get lib ref' (opts i) w))
      \<and> trace (snd (Generic lib i ref w)) = trace w @ [Net (CallGet ref')]
      \<and> fst (Image lib i ref w) = fst (lib_Image lib ref' (opts i) w)
      \<and> trace (snd (Image lib i ref w)) = trace w @ [Net (CallImage ref')]
      \<and> fst (Index lib i ref w) = fst (lib_Index lib ref' (opts i) w)
      \<and> trace (snd (Index lib i ref w)) = trace w @ [Net (CallIndex ref')]
      \<and> (outcomes 5 (regremote_Write lib ref' img (opts i)) w = map Some errs \<longrightarrow>
           fst (WriteImage lib i ref img w) =
             Some (Error (''Writing image: Retried 5 times: '' @ Error_msg (last errs))))
      \<and> (fst (WriteImage lib i ref img w) = None \<longrightarrow>
           None \<in> set (outcomes 5 (regremote_Write lib ref' img (opts i)) w))
      \<and> (outcomes 5 (regremote_WriteIndex lib ref' idx (opts i)) w = map Some errs \<longrightarrow>
           fst (WriteIndex lib i ref idx w) =
             Some (Error (''Writing image index: Retried 5 times: '' @ Error_msg (last errs))))
      \<and> (fst (WriteIndex lib i ref idx w) = None \<longrightarrow>
           None \<in> set (outcomes 5 (regremote_WriteIndex lib ref' idx (opts i)) w)))
   \<and> (regname_NewRepository lib (repository_Name repo) (refOpts i) = Inr repo' \<longrightarrow>
        fst (ListTags lib i repo w) = fst (lib_List lib repo' (opts i) w)
        \<and> trace (snd (ListTags lib i repo w)) = trace w @ [Net (CallList repo')])
   \<and> (regname_NewTag lib (tag_String dstRef) (refOpts i) = Inr dstRef'
      \<and> regname_NewDigest lib (digest_String srcRef) (refOpts i) = Inr srcRef' \<longrightarrow>
        (outcomes 5 (WriteTag_attempt lib i dstRef' srcRef') w = map Some errs \<longrightarrow>
           fst (WriteTag lib i dstRef srcRef w) =
             Some (Error (''Writing image tag: Retried 5 times: '' @ Error_msg (last errs))))
        \<and> (fst (WriteTag lib i dstRef srcRef w) = None \<longrightarrow>
             None \<in> set (outcomes 5 (WriteTag_attempt lib i dstRef' srcRef') w)))
   \<and> (regname_ParseReference lib (reference_String ref) (refOpts i) = Inl err \<longrightarrow>
        fst (Generic lib i ref w) = Inl err
        \<and> fst (Image lib i ref w) = Inl err
        \<and> fst (Index lib i ref w) = Inl err
        \<and> fst (WriteImage lib i ref img w) = Some err
        \<and> fst (WriteIndex lib i ref idx w) = Some err)
   \<and> (regname_NewTag lib (tag_String dstRef) (refOpts i) = Inl err \<longrightarrow>
        fst (WriteTag lib i dstRef srcRef w) = Some err)
   \<and> (regname_NewTag lib (tag_String dstRef) (refOpts i) = Inr dstRef'
      \<and> regname_NewDigest lib (digest_String srcRef) (refOpts i) = Inl err \<longrightarrow>
        fst (WriteTag lib i dstRef srcRef w) = Some err)
   \<and> (regname_NewRepository lib (repository_Name repo) (refOpts i) = Inl err \<longrightarrow>
        fst (ListTags lib i repo w) = Inl err)"
proof (intro conjI impI)
  assume p: "regname_ParseReference lib (reference_String ref) (refOpts i) = Inr ref'"
  show "fst (Generic lib i ref w) = map_sum id Descriptor (fst (lib_Get lib ref' (opts i) w))"
    using p by (rule Generic_parsed)
  show "trace (snd (Generic lib i ref w)) = trace w @ [Net (CallGet ref')]"
    using p by (rule Generic_parsed)
  show "fst (Image lib i ref w) = fst (lib_Image lib ref' (opts i) w)"
    by (simp add: Image_def p regremote_Image_def perform_result)
  show "trace (snd (Image lib i ref w)) = trace w @ [Net (CallImage ref')]"
    by (simp add: Image_def p regremote_Image_def perform_trace)
  show "fst (Index lib i ref w) = fst (lib_Index lib ref' (opts i) w)"
    by (simp add: Index_def p regremote_Index_def perform_result)
  show "trace (snd (Index lib i ref w)) = trace w @ [Net (CallIndex ref')]"
    by (simp add: Index_def p regremote_Index_def perform_trace)
  show "fst (WriteImage lib i ref img w) =
          Some (Error (''Writing image: Retried 5 times: '' @ Error_msg (last errs)))"
    if "outcomes 5 (regremote_Write lib ref' img (opts i)) w = map Some errs"
    using write_exhausted [OF that, where label = "''Writing image: ''"] by (simp add: WriteImage_def p)
  show "None \<in> set (outcomes 5 (regremote_Write lib ref' img (opts i)) w)"
    if "fst (WriteImage lib i ref img w) = None"
    using that by (intro write_success [where label = "''Writing image: ''"]) (simp add: WriteImage_def p)
  show "fst (WriteIndex lib i ref idx w) =
          Some (Error (''Writing image index: Retried 5 times: '' @ Error_msg (last errs)))"
    if "outcomes 5 (regremote_WriteIndex lib ref' idx (opts i)) w = map Some errs"
    using write_exhausted [OF that, where label = "''Writing image index: ''"] by (simp add: WriteIndex_def p)
  show "None \<in> set (outcomes 5 (regremote_WriteIndex lib ref' idx (opts i)) w)"
    if "fst (WriteIndex lib i ref idx w) = None"
    using that by (intro write_success [where label = "''Writing image index: ''"]) (simp add: WriteIndex_def p)
next
  assume p: "regname_NewRepository lib (repository_Name repo) (refOpts i) = Inr repo'"
  show "fst (ListTags lib i repo w) = fst (lib_List lib repo' (opts i) w)"
    by (simp add: ListTags_def p regremote_List_def perform_result)
  show "trace (snd (ListTags lib i repo w)) = trace w @ [Net (CallList repo')]"
    by (simp add: ListTags_def p regremote_List_def perform_trace)
next
  assume p: "regname_NewTag lib (tag_String dstRef) (refOpts i) = Inr dstRef'
      \<and> regname_NewDigest lib (digest_String srcRef) (refOpts i) = Inr srcRef'"
  show "fst (WriteTag lib i dstRef srcRef w) =
          Some (Error (''Writing image tag: Retried 5 times: '' @ Error_msg (last errs)))"
    if "outcomes 5 (WriteTag_attempt lib i dstRef' srcRef') w = map Some errs"
    using write_exhausted [OF that, where label = "''Writing image tag: ''"] by (simp add: WriteTag_def p)
  show "None \<in> set (outcomes 5 (WriteTag_attempt lib i dstRef' srcRef') w)"
    if "fst (WriteTag lib i dstRef srcRef w) = None"
    using that by (intro write_success [where label = "''Writing image tag: ''"]) (simp add: WriteTag_def p)
next
  assume p: "regname_ParseReference lib (reference_String ref) (refOpts i) = Inl err"
  show "fst (Generic lib i ref w) = Inl err" by (simp add: Generic_def p)
  show "fst (Image lib i ref w) = Inl err" by (simp add: Image_def p)
  show "fst (Index lib i ref w) = Inl err" by (simp add: Index_def p)
  show "fst (WriteImage lib i ref img w) = Some err" by (simp add: WriteImage_def p)
  show "fst (WriteIndex lib i ref idx w) = Some err" by (simp add: WriteIndex_def p)
next
  assume "regname_NewTag lib (tag_String dstRef) (refOpts i) = Inl err"
  then show "fst (WriteTag lib i dstRef srcRef w) = Some err"
    by (simp add: WriteTag_def)
next
  assume "regname_NewTag lib (tag_String dstRef) (refOpts i) = Inr dstRef'
      \<and> regname_NewDigest lib (digest_String srcRef) (refOpts i) = Inl err"
  then show "fst (WriteTag lib i dstRef srcRef w) = Some err"
    by (simp add: WriteTag_def)
next
  assume "regname_NewRepository lib (repository_Name repo) (refOpts i) = Inl err"
  then show "fst (ListTags lib i repo w) = Inl err"
    by (simp add: ListTags_def)
qed

text \<open>
  C7 on the example registry: two reads that fail, a write that fails five times,
  and a write, a tagging (at either reference) and a listing whose reference does
  not parse.
\<close>

theorem operation_errors_reach_caller_witness:
  "regname_ParseReference example_library (reference_String (TagRef (Tag ''registry.test/app:v1'')))
     (refOpts example_registry) = Inr (TagRef (Tag ''registry.test/app:v1''))
   \<and> Generic example_library example_registry (TagRef (Tag ''registry.test/app:v1'')) world0 =
       (Inl (Error ''MANIFEST_UNKNOWN''),
        \<lparr>net = (), trace = [Net (CallGet (TagRef (Tag ''registry.test/app:v1'')))]\<rparr>)
   \<and> outcomes 5 (regremote_Write example_library (TagRef (Tag ''registry.test/app:v1'')) (V1Image ''app'')
        (opts example_registry)) world0 = map Some (replicate 5 (Error ''UNAUTHORIZED''))
   \<and> fst (WriteImage example_library example_registry (TagRef (Tag ''registry.test/app:v1''))
            (V1Image ''app'') world0) =
       Some (Error ''Writing image: Retried 5 times: UNAUTHORIZED'')
   \<and> regname_NewRepository example_library (repository_Name (Repository ''registry.test/app''))
        (refOpts example_registry) = Inr (Repository ''registry.test/app'')
   \<and> fst (ListTags example_library example_registry (Repository ''registry.test/app'') world0) =
       Inl (Error ''NAME_UNKNOWN'')
   \<and> trace (snd (ListTags example_library example_registry (Repository ''registry.test/app'') world0)) =
       [Net (CallList (Repository ''registry.test/app''))]
   \<and> regname_ParseReference example_library (reference_String (TagRef (Tag []))) (refOpts example_registry) =
       Inl (Error ''could not parse reference'')
   \<and> fst (WriteIndex example_library example_registry (TagRef (Tag [])) (V1ImageIndex ''apps'') world0) =
       Some (Error ''could not parse reference'')
   \<and> regname_NewTag example_library (tag_String (Tag [])) (refOpts example_registry) =
       Inl (Error ''could not parse tag'')
   \<and> fst (WriteTag example_library example_registry (Tag []) (Digest ''registry.test/app@sha256:abc'')
            world0) = Some (Error ''could not parse tag'')
   \<and> regname_NewTag example_library (tag_String (Tag ''registry.test/app:v1'')) (refOpts example_registry) =
       Inr (Tag ''registry.test/app:v1'')
   \<and> regname_NewDigest example_library (digest_String (Digest [])) (refOpts example_registry) =
       Inl (Error ''could not parse digest'')
   \<and> fst (WriteTag example_library example_registry (Tag ''registry.test/app:v1'') (Digest []) world0) =
       Some (Error ''could not parse digest'')
   \<and> regname_NewRepository example_library (repository_Name (Repository [])) (refOpts example_registry) =
       Inl (Error ''could not parse repository'')
   \<and> fst (ListTags example_library example_registry (Repository []) world0) =
       Inl (Error ''could not parse repository'')"
proof -
  let ?ref = "TagRef (Tag ''registry.test/app:v1'')"
  let ?repo = "Repository ''registry.test/app''"
  have p: "regname_ParseReference example_library (reference_String ?ref) (refOpts example_registry) =
           Inr ?ref"
    and q: "regname_NewRepository example_library (repository_Name ?repo) (refOpts example_registry) =
           Inr ?repo"
    and x: "regname_ParseReference example_library (reference_String (TagRef (Tag []))) (refOpts example_registry) =
           Inl (Error ''could not parse reference'')"
    by (simp_all add: example_library_def)
  have o: "outcomes 5 (regremote_Write example_library ?ref (V1Image ''app'') (opts example_registry)) world0 =
           map Some (replicate 5 (Error ''UNAUTHORIZED''))"
    by (simp add: eval_nat_numeral regremote_Write_def perform_def invoke_def failed_attempt_def
          time_Sleep_def example_library_def)
  have w0: "trace world0 = []"
    by (simp add: world0_def)
  have g: "fst (lib_Get example_library ?ref (opts example_registry) world0) = Inl (Error ''MANIFEST_UNKNOWN'')"
    and l: "fst (lib_List example_library ?repo (opts example_registry) world0) = Inl (Error ''NAME_UNKNOWN'')"
    by (simp_all add: example_library_def w0 invocations_def)
  from operation_errors_reach_caller
    [where lib = example_library and i = example_registry and ref = ?ref and ref' = ?ref
       and w = world0 and img = "V1Image ''app''" and errs = "replicate 5 (Error ''UNAUTHORIZED'')"]
    p o
  have "fst (Generic example_library example_registry ?ref world0) =
          map_sum id Descriptor (fst (lib_Get example_library ?ref (opts example_registry) world0))"
    and "trace (snd (Generic example_library example_registry ?ref world0)) =
          trace world0 @ [Net (CallGet ?ref)]"
    and "fst (WriteImage example_library example_registry ?ref (V1Image ''app'') world0) =
          Some (Error (''Writing image: Retried 5 times: ''
                       @ Error_msg (last (replicate 5 (Error ''UNAUTHORIZED'')))))"
    by blast+
  then have "fst (Generic example_library example_registry ?ref world0) = Inl (Error ''MANIFEST_UNKNOWN'')"
    and "trace (snd (Generic example_library example_registry ?ref world0)) = [Net (CallGet ?ref)]"
    and w: "fst (WriteImage example_library example_registry ?ref (V1Image ''app'') world0) =
          Some (Error ''Writing image: Retried 5 times: UNAUTHORIZED'')"
    by (simp_all add: g w0)
  then have a: "Generic example_library example_registry ?ref world0 =
       (Inl (Error ''MANIFEST_UNKNOWN''), \<lparr>net = (), trace = [Net (CallGet ?ref)]\<rparr>)"
    by (cases "Generic example_library example_registry ?ref world0") auto
  from operation_errors_reach_caller
    [where lib = example_library and i = example_registry and repo = ?repo and repo' = ?repo
       and w = world0] q
  have b: "fst (ListTags example_library example_registry ?repo world0) = Inl (Error ''NAME_UNKNOWN'')
         \<and> trace (snd (ListTags example_library example_registry ?repo world0)) = [Net (CallList ?repo)]"
    by (simp add: l w0)
  from operation_errors_reach_caller
    [where lib = example_library and i = example_registry and ref = "TagRef (Tag [])"
       and err = "Error ''could not parse reference''" and idx = "V1ImageIndex ''apps''"
       and w = world0] x
  have c: "fst (WriteIndex example_library example_registry (TagRef (Tag [])) (V1ImageIndex ''apps'') world0) =
       Some (Error ''could not parse reference'')"
    by blast
  have t1: "regname_NewTag example_library (tag_String (Tag [])) (refOpts example_registry) =
           Inl (Error ''could not parse tag'')"
    and t2: "regname_NewTag example_library (tag_String (Tag ''registry.test/app:v1'')) (refOpts example_registry) =
           Inr (Tag ''registry.test/app:v1'')"
    and d2: "regname_NewDigest example_library (digest_String (Digest [])) (refOpts example_registry) =
           Inl (Error ''could not parse digest'')"
    and r1: "regname_NewRepository example_library (repository_Name (Repository [])) (refOpts example_registry) =
           Inl (Error ''could not parse repository'')"
    by (simp_all add: example_library_def)
  from operation_errors_reach_caller
    [where lib = example_library and i = example_registry and dstRef = "Tag []"
       and srcRef = "Digest ''registry.test/app@sha256:abc''" and err = "Error ''could not parse tag''"
       and w = world0] t1
  have d: "fst (WriteTag example_library example_registry (Tag []) (Digest ''registry.test/app@sha256:abc'')
            world0) = Some (Error ''could not parse tag'')"
    by blast
  from operation_errors_reach_caller
    [where lib = example_library and i = example_registry and dstRef = "Tag ''registry.test/app:v1''"
       and dstRef' = "Tag ''registry.test/app:v1''" and srcRef = "Digest []"
       and err = "Error ''could not parse digest''" and w = world0] t2 d2
  have e: "fst (WriteTag example_library example_registry (Tag ''registry.test/app:v1'') (Digest []) world0) =
       Some (Error ''could not parse digest'')"
    by blast
  from operation_errors_reach_caller
    [where lib = example_library and i = example_registry and repo = "Repository []"
       and err = "Error ''could not parse repository''" and w = world0] r1
  have f: "fst (ListTags example_library example_registry (Repository []) world0) =
       Inl (Error ''could not parse repository'')"
    by blast
  show ?thesis
    using p o w q x a b c t1 t2 d2 r1 d e f by simp
qed

text \<open>
  C7 as stated has every error of a write operation wrapped with the label of
  the operation. The error of a reference that does not parse comes back bare.
\<close>

theorem write_parse_error_counterexample:
  "WriteImage example_library example_registry (TagRef (Tag [])) (V1Image ''app'') world0 =
     (Some (Error ''could not parse reference''), world0)"
  by (simp add: WriteImage_def example_library_def example_registry_def)

subsection \<open>References are parsed before the network is used (C8)\<close>

text \<open>After a reference has parsed: the retry loop only adds to the trace, and its first call comes first.\<close>

lemma invoke_extends:
  assumes "\<forall>w. \<exists>es. trace (snd (doFunc w)) = trace w @ c @ es"
  shows "\<exists>es. trace (snd (invoke doFunc w)) = trace w @ Invoke # c @ es"
proof -
  from assms obtain es where
    "trace (snd (doFunc (w\<lparr>trace := trace w @ [Invoke]\<rparr>))) =
     trace (w\<lparr>trace := trace w @ [Invoke]\<rparr>) @ c @ es"
    by blast
  then show ?thesis
    by (simp add: invoke_def)
qed

lemma retry_loop_extends:
  assumes "\<forall>w. \<exists>es. trace (snd (doFunc w)) = trace w @ es"
  shows "\<exists>es. trace (snd (retry_loop i lastErr doFunc w)) = trace w @ es"
  using assms
proof (induction i lastErr doFunc w rule: retry_loop.induct)
  case (1 i lastErr doFunc w)
  show ?case
  proof (cases "i < 5")
    case False
    then show ?thesis
      by (subst retry_loop.simps) simp
  next
    case True
    obtain r w' where inv: "invoke doFunc w = (r, w')"
      by (cases "invoke doFunc w")
    from 1(2) have "\<forall>w. \<exists>es. trace (snd (doFunc w)) = trace w @ [] @ es"
      by simp
    from invoke_extends [OF this, of w] inv obtain cs where t: "trace w' = trace w @ Invoke # cs"
      by auto
    show ?thesis
    proof (cases r)
      case None
      with True inv t show ?thesis
        by (subst retry_loop.simps) simp
    next
      case (Some e)
      from 1(1) [OF True inv [symmetric] Some 1(2)]
      obtain es where "trace (snd (retry_loop (i + 1) (Some e) doFunc (time_Sleep (1 * Second) w'))) =
                       trace (time_Sleep (1 * Second) w') @ es"
        by blast
      with True inv Some t show ?thesis
        by (subst retry_loop.simps) (simp add: time_Sleep_def)
    qed
  qed
qed

lemma retry_first_call:
  assumes "\<forall>w. \<exists>es. trace (snd (doFunc w)) = trace w @ c @ es"
  shows "\<exists>es. trace (snd (retry doFunc w)) = trace w @ Invoke # c @ es"
proof -
  obtain r w' where inv: "invoke doFunc w = (r, w')"
    by (cases "invoke doFunc w")
  from invoke_extends [OF assms, of w] inv obtain cs where t: "trace w' = trace w @ Invoke # c @ cs"
    by auto
  from assms have ext: "\<forall>w. \<exists>es. trace (snd (doFunc w)) = trace w @ es"
    by blast
  show ?thesis
  proof (cases r)
    case None
    with inv t show ?thesis
      unfolding retry_def by (subst retry_loop.simps) simp
  next
    case (Some e)
    from retry_loop_extends [OF ext, of 1 "Some e" "time_Sleep (1 * Second) w'"]
    obtain es where "trace (snd (retry_loop 1 (Some e) doFunc (time_Sleep (1 * Second) w'))) =
                     trace (time_Sleep (1 * Second) w') @ es"
      by blast
    with inv Some t show ?thesis
      unfolding retry_def by (subst retry_loop.simps) (simp add: time_Sleep_def)
  qed
qed

lemma write_first_call:
  assumes "\<forall>w. \<exists>es. trace (snd (doFunc w)) = trace w @ c @ es"
  shows "\<exists>es. trace (snd (case retry doFunc w of
                             (Some err, w') \<Rightarrow> (Some (fmt_Errorf label (Some err)), w')
                           | (None, w') \<Rightarrow> (None, w'))) = trace w @ Invoke # c @ es"
  using retry_first_call [OF assms, of w]
  by (cases "retry doFunc w"; cases "fst (retry doFunc w)") auto

lemma WriteTag_attempt_first_call:
  "\<exists>es. trace (snd (WriteTag_attempt lib i dstRef srcRef w)) =
         trace w @ [Net (CallGet (DigestRef srcRef))] @ es"
  by (cases "lib_Get lib (DigestRef srcRef) (opts i) w";
      cases "fst (lib_Get lib (DigestRef srcRef) (opts i) w)")
     (simp_all add: WriteTag_attempt_def regremote_Get_def regremote_Tag_def perform_def
        split: prod.splits)

text \<open>
  C8, as the code has it. Every operation parses its reference arguments first,
  with the options of the client, and when the parser rejects one of them the
  operation returns that error and leaves the world as it was: no call has reached
  the network. The client passes the insecure option to the parser exactly when
  \<open>Insecure\<close> is set, and adds no check of its own: a reference that the parser
  accepts goes on to the network, the operation's first call being made on the
  parsed reference. So with \<open>Insecure = false\<close> a reference to a plain-HTTP-only
  host is stopped before the network only if the parser rejects it.
\<close>

theorem references_parsed_before_network:
  "(regname_ParseReference lib (reference_String ref) (refOpts i) = Inl err \<longrightarrow>
      Generic lib i ref w = (Inl err, w)
      \<and> Image lib i ref w = (Inl err, w)
      \<and> WriteImage lib i ref img w = (Some err, w)
      \<and> Index lib i ref w = (Inl err, w)
      \<and> WriteIndex lib i ref idx w = (Some err, w))
   \<and> (regname_NewTag lib (tag_String dstRef) (refOpts i) = Inl err \<longrightarrow>
        WriteTag lib i dstRef srcRef w = (Some err, w))
   \<and> (regname_NewTag lib (tag_String dstRef) (refOpts i) = Inr dstRef'
      \<and> regname_NewDigest lib (digest_String srcRef) (refOpts i) = Inl err \<longrightarrow>
        WriteTag lib i dstRef srcRef w = (Some err, w))
   \<and> (regname_NewRepository lib (repository_Name repo) (refOpts i) = Inl err \<longrightarrow>
        ListTags lib i repo w = (Inl err, w))
   \<and> (NewRegistry h cfg = Inr i \<longrightarrow>
        refOpts i = (if Insecure cfg then [regname_Insecure] else []))
   \<and> (regname_ParseReference lib (reference_String ref) (refOpts i) = Inr ref' \<longrightarrow>
        trace (snd (Generic lib i ref w)) = trace w @ [Net (CallGet ref')]
        \<and> trace (snd (Image lib i ref w)) = trace w @ [Net (CallImage ref')]
        \<and> trace (snd (Index lib i ref w)) = trace w @ [Net (CallIndex ref')]
        \<and> (\<exists>es. trace (snd (WriteImage lib i ref img w)) =
                  trace w @ Invoke # Net (CallWrite ref' img) # es)
        \<and> (\<exists>es. trace (snd (WriteIndex lib i ref idx w)) =
                  trace w @ Invoke # Net (CallWriteIndex ref' idx) # es))
   \<and> (regname_NewTag lib (tag_String dstRef) (refOpts i) = Inr dstRef'
      \<and> regname_NewDigest lib (digest_String srcRef) (refOpts i) = Inr srcRef' \<longrightarrow>
        (\<exists>es. trace (snd (WriteTag lib i dstRef srcRef w)) =
               trace w @ Invoke # Net (CallGet (DigestRef srcRef')) # es))
   \<and> (regname_NewRepository lib (repository_Name repo) (refOpts i) = Inr repo' \<longrightarrow>
        trace (snd (ListTags lib i repo w)) = trace w @ [Net (CallList repo')])"
proof (intro conjI impI)
  assume p: "regname_ParseReference lib (reference_String ref) (refOpts i) = Inl err"
  show "Generic lib i ref w = (Inl err, w)" by (simp add: Generic_def p)
  show "Image lib i ref w = (Inl err, w)" by (simp add: Image_def p)
  show "WriteImage lib i ref img w = (Some err, w)" by (simp add: WriteImage_def p)
  show "Index lib i ref w = (Inl err, w)" by (simp add: Index_def p)
  show "WriteIndex lib i ref idx w = (Some err, w)" by (simp add: WriteIndex_def p)
next
  assume "regname_NewTag lib (tag_String dstRef) (refOpts i) = Inl err"
  then show "WriteTag lib i dstRef srcRef w = (Some err, w)" by (simp add: WriteTag_def)
next
  assume "regname_NewTag lib (tag_String dstRef) (refOpts i) = Inr dstRef'
      \<and> regname_NewDigest lib (digest_String srcRef) (refOpts i) = Inl err"
  then show "WriteTag lib i dstRef srcRef w = (Some err, w)" by (simp add: WriteTag_def)
next
  assume "regname_NewRepository lib (repository_Name repo) (refOpts i) = Inl err"
  then show "ListTags lib i repo w = (Inl err, w)" by (simp add: ListTags_def)
next
  assume "NewRegistry h cfg = Inr i"
  then show "refOpts i = (if Insecure cfg then [regname_Insecure] else [])"
    by (rule NewRegistry_refOpts)
next
  assume p: "regname_ParseReference lib (reference_String ref) (refOpts i) = Inr ref'"
  show "trace (snd (Generic lib i ref w)) = trace w @ [Net (CallGet ref')]"
    using p by (rule Generic_parsed)
  show "trace (snd (Image lib i ref w)) = trace w @ [Net (CallImage ref')]"
    by (simp add: Image_def p regremote_Image_def perform_trace)
  show "trace (snd (Index lib i ref w)) = trace w @ [Net (CallIndex ref')]"
    by (simp add: Index_def p regremote_Index_def perform_trace)
  have "\<forall>w. \<exists>es. trace (snd (regremote_Write lib ref' img (opts i) w)) =
                  trace w @ [Net (CallWrite ref' img)] @ es"
    by (simp add: regremote_Write_def perform_trace)
  from write_first_call [OF this, of "''Writing image: ''" w]
  show "\<exists>es. trace (snd (WriteImage lib i ref img w)) = trace w @ Invoke # Net (CallWrite ref' img) # es"
    by (simp add: WriteImage_def p)
  have "\<forall>w. \<exists>es. trace (snd (regremote_WriteIndex lib ref' idx (opts i) w)) =
                  trace w @ [Net (CallWriteIndex ref' idx)] @ es"
    by (simp add: regremote_WriteIndex_def perform_trace)
  from write_first_call [OF this, of "''Writing image index: ''" w]
  show "\<exists>es. trace (snd (WriteIndex lib i ref idx w)) =
             trace w @ Invoke # Net (CallWriteIndex ref' idx) # es"
    by (simp add: WriteIndex_def p)
next
  assume p: "regname_NewTag lib (tag_String dstRef) (refOpts i) = Inr dstRef'
      \<and> regname_NewDigest lib (digest_String srcRef) (refOpts i) = Inr srcRef'"
  have "\<forall>w. \<exists>es. trace (snd (WriteTag_attempt lib i dstRef' srcRef' w)) =
                  trace w @ [Net (CallGet (DigestRef srcRef'))] @ es"
    by (intro allI WriteTag_attempt_first_call)
  from write_first_call [OF this, of "''Writing image tag: ''" w]
  show "\<exists>es. trace (snd (WriteTag lib i dstRef srcRef w)) =
             trace w @ Invoke # Net (CallGet (DigestRef srcRef')) # es"
    by (simp add: WriteTag_def p)
next
  assume p: "regname_NewRepository lib (repository_Name repo) (refOpts i) = Inr repo'"
  show "trace (snd (ListTags lib i repo w)) = trace w @ [Net (CallList repo')]"
    by (simp add: ListTags_def p regremote_List_def perform_trace)
qed

text \<open>
  C8 on references that the example parser rejects, and on one that it accepts,
  with a client built by hand and with the client that \<open>NewRegistry\<close> builds
  from the zero configuration.
\<close>

theorem references_parsed_before_network_witness:
  "regname_ParseReference example_library (reference_String (TagRef (Tag []))) (refOpts example_registry) =
     Inl (Error ''could not parse reference'')
   \<and> Generic example_library example_registry (TagRef (Tag [])) world0 =
       (Inl (Error ''could not parse reference''), world0)
   \<and> WriteImage example_library example_registry (TagRef (Tag [])) (V1Image ''app'') world0 =
       (Some (Error ''could not parse reference''), world0)
   \<and> regname_NewTag example_library (tag_String (Tag [])) (refOpts example_registry) =
       Inl (Error ''could not parse tag'')
   \<and> WriteTag example_library example_registry (Tag []) (Digest ''registry.test/app@sha256:abc'') world0 =
       (Some (Error ''could not parse tag''), world0)
   \<and> regname_NewRepository example_library (repository_Name (Repository [])) (refOpts example_registry) =
       Inl (Error ''could not parse repository'')
   \<and> ListTags example_library example_registry (Repository []) world0 =
       (Inl (Error ''could not parse repository''), world0)
   \<and> \<not> isl (NewRegistry example_host Opts_zero)
   \<and> refOpts (projr (NewRegistry example_host Opts_zero)) = []
   \<and> regname_ParseReference example_library (reference_String (TagRef (Tag ''registry.test/app:v1'')))
        (refOpts example_registry) = Inr (TagRef (Tag ''registry.test/app:v1''))
   \<and> trace (snd (Generic example_library example_registry (TagRef (Tag ''registry.test/app:v1'')) world0)) =
       [Net (CallGet (TagRef (Tag ''registry.test/app:v1'')))]
   \<and> trace world0 = []"
proof -
  let ?i = "projr (NewRegistry example_host Opts_zero)"
  let ?ref = "TagRef (Tag ''registry.test/app:v1'')"
  have p: "regname_ParseReference example_library (reference_String (TagRef (Tag []))) (refOpts example_registry) =
           Inl (Error ''could not parse reference'')"
    and t: "regname_NewTag example_library (tag_String (Tag [])) (refOpts example_registry) =
           Inl (Error ''could not parse tag'')"
    and r: "regname_NewRepository example_library (repository_Name (Repository [])) (refOpts example_registry) =
           Inl (Error ''could not parse repository'')"
    and q: "regname_ParseReference example_library (reference_String ?ref) (refOpts example_registry) =
           Inr ?ref"
    by (simp_all add: example_library_def)
  have n: "\<not> isl (NewRegistry example_host Opts_zero)"
    by (simp add: NewRegistry_def newHTTPTransport_def Opts_zero_def)
  then have c: "NewRegistry example_host Opts_zero = Inr ?i"
    by simp
  have z: "\<not> Insecure Opts_zero"
    by (simp add: Opts_zero_def)
  have w0: "trace world0 = []"
    by (simp add: world0_def)
  from references_parsed_before_network
    [where lib = example_library and i = example_registry and ref = "TagRef (Tag [])"
       and err = "Error ''could not parse reference''" and w = world0 and img = "V1Image ''app''"] p
  have a: "Generic example_library example_registry (TagRef (Tag [])) world0 =
             (Inl (Error ''could not parse reference''), world0)
           \<and> WriteImage example_library example_registry (TagRef (Tag [])) (V1Image ''app'') world0 =
             (Some (Error ''could not parse reference''), world0)"
    by blast
  from references_parsed_before_network
    [where lib = example_library and i = example_registry and dstRef = "Tag []"
       and srcRef = "Digest ''registry.test/app@sha256:abc''"
       and err = "Error ''could not parse tag''" and w = world0] t
  have b: "WriteTag example_library example_registry (Tag []) (Digest ''registry.test/app@sha256:abc'') world0 =
             (Some (Error ''could not parse tag''), world0)"
    by blast
  from references_parsed_before_network
    [where lib = example_library and i = example_registry and repo = "Repository []"
       and err = "Error ''could not parse repository''" and w = world0] r
  have d: "ListTags example_library example_registry (Repository []) world0 =
             (Inl (Error ''could not parse repository''), world0)"
    by blast
  from references_parsed_before_network
    [where lib = example_library and i = ?i and h = example_host and cfg = Opts_zero and w = world0] c
  have "refOpts ?i = (if Insecure Opts_zero then [regname_Insecure] else [])"
    by blast
  then have e: "refOpts ?i = []"
    using z by simp
  from references_parsed_before_network
    [where lib = example_library and i = example_registry and ref = ?ref and ref' = ?ref
       and w = world0] q
  have f: "trace (snd (Generic example_library example_registry ?ref world0)) = [Net (CallGet ?ref)]"
    by (simp add: w0)
  show ?thesis
    using p t r q n a b d e f by (simp add: w0)
qed

text \<open>
  C8 as stated has a reference to a plain-HTTP-only host fail at parsing when
  \<open>Insecure\<close> is false. With the client built from the zero configuration the
  reference parses, and the operation fails at its network call.
\<close>

theorem plain_http_reference_reaches_network_counterexample:
  "\<not> Insecure Opts_zero
   \<and> \<not> isl (NewRegistry example_host Opts_zero)
   \<and> regname_ParseReference plain_http_library
        (reference_String (TagRef (Tag ''http-only.test/app:v1'')))
        (refOpts (projr (NewRegistry example_host Opts_zero))) =
       Inr (TagRef (Tag ''http-only.test/app:v1''))
   \<and> Generic plain_http_library (projr (NewRegistry example_host Opts_zero))
        (TagRef (Tag ''http-only.test/app:v1'')) world0 =
       (Inl (Error ''Get https://http-only.test/v2/: http: server gave HTTP response to HTTPS client''),
        \<lparr>net = (), trace = [Net (CallGet (TagRef (Tag ''http-only.test/app:v1'')))]\<rparr>)"
  by (simp add: Generic_def regremote_Get_def perform_def plain_http_library_def example_library_def
        NewRegistry_def newHTTPTransport_def Opts_zero_def world0_def)

subsection \<open>Parse errors of the write operations (C9)\<close>

text \<open>
  C9. In \<open>WriteImage\<close>, \<open>WriteIndex\<close> and \<open>WriteTag\<close>, a reference
  argument that does not parse makes the operation return the error of the parser
  itself, which is not the error with the label of the operation in front; the
  retry loop is not entered, so the closure is called zero times and the trace
  gains no network call.
\<close>

theorem write_parse_errors_skip_retry:
  "(regname_ParseReference lib (reference_String ref) (refOpts i) = Inl err \<longrightarrow>
      WriteImage lib i ref img w = (Some err, w)
      \<and> fst (WriteImage lib i ref img w) \<noteq> Some (fmt_Errorf ''Writing image: '' (Some err))
      \<and> invocations (trace (snd (WriteImage lib i ref img w))) = invocations (trace w)
      \<and> network_calls (trace (snd (WriteImage lib i ref img w))) = network_calls (trace w)
      \<and> WriteIndex lib i ref idx w = (Some err, w)
      \<and> fst (WriteIndex lib i ref idx w) \<noteq> Some (fmt_Errorf ''Writing image index: '' (Some err))
      \<and> invocations (trace (snd (WriteIndex lib i ref idx w))) = invocations (trace w)
      \<and> network_calls (trace (snd (WriteIndex lib i ref idx w))) = network_calls (trace w))
   \<and> ((regname_NewTag lib (tag_String dstRef) (refOpts i) = Inl err
       \<or> (regname_NewTag lib (tag_String dstRef) (refOpts i) = Inr dstRef'
          \<and> regname_NewDigest lib (digest_String srcRef) (refOpts i) = Inl err)) \<longrightarrow>
      WriteTag lib i dstRef srcRef w = (Some err, w)
      \<and> fst (WriteTag lib i dstRef srcRef w) \<noteq> Some (fmt_Errorf ''Writing image tag: '' (Some err))
      \<and> invocations (trace (snd (WriteTag lib i dstRef srcRef w))) = invocations (trace w)
      \<and> network_calls (trace (snd (WriteTag lib i dstRef srcRef w))) = network_calls (trace w))"
  using prefixed_differs [of "''Writing image: ''" err, symmetric]
    prefixed_differs [of "''Writing image index: ''" err, symmetric]
    prefixed_differs [of "''Writing image tag: ''" err, symmetric]
  by (auto simp: WriteImage_def WriteIndex_def WriteTag_def)

text \<open>C9 on an empty reference, and on an empty source digest behind a good tag.\<close>

theorem write_parse_errors_skip_retry_witness:
  "regname_ParseReference example_library (reference_String (TagRef (Tag []))) (refOpts example_registry) =
     Inl (Error ''could not parse reference'')
   \<and> WriteImage example_library example_registry (TagRef (Tag [])) (V1Image ''app'') world0 =
       (Some (Error ''could not parse reference''), world0)
   \<and> WriteIndex example_library example_registry (TagRef (Tag [])) (V1ImageIndex ''apps'') world0 =
       (Some (Error ''could not parse reference''), world0)
   \<and> regname_NewTag example_library (tag_String (Tag ''registry.test/app:v1'')) (refOpts example_registry) =
       Inr (Tag ''registry.test/app:v1'')
   \<and> regname_NewDigest example_library (digest_String (Digest [])) (refOpts example_registry) =
       Inl (Error ''could not parse digest'')
   \<and> WriteTag example_library example_registry (Tag ''registry.test/app:v1'') (Digest []) world0 =
       (Some (Error ''could not parse digest''), world0)
   \<and> trace world0 = []"
proof -
  have p: "regname_ParseReference example_library (reference_String (TagRef (Tag []))) (refOpts example_registry) =
             Inl (Error ''could not parse reference'')"
    and t: "regname_NewTag example_library (tag_String (Tag ''registry.test/app:v1'')) (refOpts example_registry) =
             Inr (Tag ''registry.test/app:v1'')"
    and d: "regname_NewDigest example_library (digest_String (Digest [])) (refOpts example_registry) =
             Inl (Error ''could not parse digest'')"
    by (simp_all add: example_library_def)
  from write_parse_errors_skip_retry
    [where lib = example_library and i = example_registry and ref = "TagRef (Tag [])"
       and err = "Error ''could not parse reference''" and w = world0 and img = "V1Image ''app''"
       and idx = "V1ImageIndex ''apps''"] p
  have a: "WriteImage example_library example_registry (TagRef (Tag [])) (V1Image ''app'') world0 =
             (Some (Error ''could not parse reference''), world0)
           \<and> WriteIndex example_library example_registry (TagRef (Tag [])) (V1ImageIndex ''apps'') world0 =
             (Some (Error ''could not parse reference''), world0)"
    by blast
  from write_parse_errors_skip_retry
    [where lib = example_library and i = example_registry and dstRef = "Tag ''registry.test/app:v1''"
       and dstRef' = "Tag ''registry.test/app:v1''" and srcRef = "Digest []"
       and err = "Error ''could not parse digest''" and w = world0] t d
  have b: "WriteTag example_library example_registry (Tag ''registry.test/app:v1'') (Digest []) world0 =
             (Some (Error ''could not parse digest''), world0)"
    by blast
  show ?thesis
    using p t d a b by (simp add: world0_def)
qed

end
